theory Spec2Isabelle
  imports Main "HOL-Library.AList"
begin

section \<open>The micro editor: views, dispatch, scheduler and settings\<close>

text \<open>
  A shallow embedding of the Go sources \<^verbatim>\<open>cmd/micro/view.go\<close> (the View: scrolling,
  Relocate, ExecuteActions, HandleEvent, gutter messages, DisplayView), of the main loop of
  \<^verbatim>\<open>main\<close> and of the settings file (InitGlobalSettings, WriteSettings, SetOption).

  Conventions.
  \<^item> Go's \<^verbatim>\<open>int\<close> is modelled by \<open>int\<close>. Where a statement ranges over an arbitrary
    argument (ScrollUp, ScrollDown, GutterMessage) the 64-bit wrap-around is written out
    with \<open>wrap64\<close>; elsewhere line numbers and screen sizes are taken as they are.
  \<^item> A panic (a failed type assertion on a settings value) is the value \<open>Inl e\<close> of a sum.
  \<^item> A pointer to a cursor is an address into the buffer's cursor store; a \<^verbatim>\<open>nil\<close>
    pointer is \<open>None\<close>.
  \<^item> Methods of collaborators whose code is in other files of the repository (Buffer,
    Cursor, Completer, the plugin host, the tab bar) are parameters of the functions that
    call them.
\<close>

subsection \<open>Machine integers\<close>

definition int64 :: "int \<Rightarrow> bool" where
  "int64 i = (- (2 ^ 63) \<le> i \<and> i < 2 ^ 63)"

definition wrap64 :: "int \<Rightarrow> int" where
  "wrap64 i = (i + 2 ^ 63) mod 2 ^ 64 - 2 ^ 63"

subsection \<open>Option values\<close>

text \<open>
  A settings map is \<^verbatim>\<open>map[string]interface{}\<close>. The dynamic types that occur are bool,
  string, float64, string slices and nested maps. A float64 option is modelled by the
  integer \<^verbatim>\<open>int(x)\<close> that the code converts it to where it reads it: the defaults are
  integral and the numbers that SetOption stores are \<^verbatim>\<open>float64(i)\<close> of a parsed integer.
\<close>

datatype setting =
    VBool bool
  | VString string
  | VFloat64 int
  | VSlice "string list"
  | VMap "(string \<times> setting) list"

datatype error =
    TypeAssertion string
  | IndexOutOfRange

type_synonym settings = "string \<rightharpoonup> setting"

text \<open>\<^verbatim>\<open>m[k].(bool)\<close>: panics when the key is missing (a nil interface) or holds another type.\<close>

fun asBool :: "string \<Rightarrow> setting option \<Rightarrow> error + bool" where
  "asBool k (Some (VBool b)) = Inr b"
| "asBool k _ = Inl (TypeAssertion k)"

text \<open>\<^verbatim>\<open>int(m[k].(float64))\<close>.\<close>

fun asInt :: "string \<Rightarrow> setting option \<Rightarrow> error + int" where
  "asInt k (Some (VFloat64 i)) = Inr i"
| "asInt k _ = Inl (TypeAssertion k)"

subsection \<open>Cursor, Buffer and View\<close>

type_synonym Loc = "int \<times> int"

record Cursor =
  X :: int
  Y :: int
  LastVisualX :: int
  CurSelection :: "Loc \<times> Loc"
  Num :: int

text \<open>
  The Buffer as the view sees it: \<open>Line\<close> is the method \<^verbatim>\<open>Buffer.Line\<close>, \<open>cursors\<close> the
  slice of cursor pointers, \<open>store\<close> the cursor objects by address. Address \<open>0\<close> is
  \<^verbatim>\<open>&b.Cursor\<close>, the primary cursor.
\<close>

record Buffer =
  NumLines :: int
  Line :: "int \<Rightarrow> string"
  Settings :: settings
  cursors :: "nat option list"
  curCursor :: int
  store :: "nat \<Rightarrow> Cursor"

record ViewType =
  Kind :: int
  Readonly :: bool
  Scratch :: bool

definition vtDefault :: ViewType where
  "vtDefault = \<lparr>Kind = 0, Readonly = False, Scratch = False\<rparr>"


definition vtLog :: ViewType where
  "vtLog = \<lparr>Kind = 2, Readonly = True, Scratch = True\<rparr>"

definition vtScratch :: ViewType where
  "vtScratch = \<lparr>Kind = 3, Readonly = False, Scratch = True\<rparr>"

definition vtRaw :: ViewType where
  "vtRaw = \<lparr>Kind = 4, Readonly = True, Scratch = True\<rparr>"

definition vtTerm :: ViewType where
  "vtTerm = \<lparr>Kind = 5, Readonly = True, Scratch = True\<rparr>"

record GutterMessage =
  lineNum :: int
  msg :: string
  kind :: int

text \<open>
  The fields of View that the modelled methods read or write. \<open>Cursor\<close> is the pointer
  \<^verbatim>\<open>v.Cursor\<close>; \<open>view_x\<close>, \<open>view_y\<close> and \<open>ViewNum\<close> are the fields \<^verbatim>\<open>x\<close>, \<^verbatim>\<open>y\<close> and
  \<^verbatim>\<open>Num\<close>; \<open>messages\<close> is the map from section to gutter messages, kept as an
  association list.
\<close>

record View =
  Cursor :: nat
  Topline :: int
  leftCol :: int
  Type :: ViewType
  Width :: int
  Height :: int
  view_x :: int
  view_y :: int
  lineNumOffset :: int
  messages :: "(string \<times> GutterMessage list) list"
  ViewNum :: int
  Buf :: Buffer
  mouseReleased :: bool
  isOverwriteMode :: bool
  doubleClick :: bool
  tripleClick :: bool
  freshClip :: bool

text \<open>The cursor object \<^verbatim>\<open>*v.Cursor\<close>.\<close>

definition theCursor :: "View \<Rightarrow> Cursor" where
  "theCursor v = store (Buf v) (Cursor v)"

subsection \<open>Scrolling\<close>

text \<open>
  \<^verbatim>\<open>ScrollUp(n)\<close>: scroll by n, or by one line when n lines would pass the top.
\<close>

definition ScrollUp :: "int \<Rightarrow> View \<Rightarrow> View" where
  "ScrollUp n v =
     (if wrap64 (Topline v - n) \<ge> 0 then v\<lparr>Topline := wrap64 (Topline v - n)\<rparr>
      else if Topline v > 0 then v\<lparr>Topline := wrap64 (Topline v - 1)\<rparr>
      else v)"

text \<open>
  \<^verbatim>\<open>ScrollDown(n)\<close>: scroll by n, or by one line when n lines would pass NumLines.
\<close>

definition ScrollDown :: "int \<Rightarrow> View \<Rightarrow> View" where
  "ScrollDown n v =
     (if wrap64 (Topline v + n) \<le> NumLines (Buf v) then v\<lparr>Topline := wrap64 (Topline v + n)\<rparr>
      else if Topline v < wrap64 (NumLines (Buf v) - 1) then v\<lparr>Topline := wrap64 (Topline v + 1)\<rparr>
      else v)"

subsection \<open>The visible line range\<close>

definition tab :: char where
  "tab = CHR 0x09"

text \<open>
  The inner loop of \<^verbatim>\<open>Bottomline\<close> over the runes of one line: a full visual row wraps
  to the next one, and a tab advances by \<^verbatim>\<open>tabsize\<close> columns. The pair is
  \<^verbatim>\<open>(screenX, screenY)\<close>; the counter \<^verbatim>\<open>colN\<close> of the source is never read.
\<close>

fun wrapLine :: "View \<Rightarrow> string \<Rightarrow> int \<times> int \<Rightarrow> error + (int \<times> int)" where
  "wrapLine v [] (screenX, screenY) = Inr (screenX, screenY)"
| "wrapLine v (ch # line) (screenX, screenY) =
     (let (screenX, screenY) =
            (if screenX \<ge> Width v - lineNumOffset v then (0, screenY + 1)
             else (screenX, screenY))
      in if ch = tab then
           (case asInt ''tabsize'' (Settings (Buf v) ''tabsize'') of
              Inl e \<Rightarrow> Inl e
            | Inr tabsize \<Rightarrow> wrapLine v line (screenX + (tabsize - 1) + 1, screenY))
         else wrapLine v line (screenX + 1, screenY))"

text \<open>
  The outer loop of \<^verbatim>\<open>Bottomline\<close> under softwrap, from \<^verbatim>\<open>lineN\<close> on. It stops at
  \<^verbatim>\<open>Topline + Height\<close> or, by \<^verbatim>\<open>break\<close>, when the visual rows are used up, and
  returns \<^verbatim>\<open>numLines\<close>.
\<close>

function bottomLoop :: "View \<Rightarrow> int \<Rightarrow> int \<Rightarrow> int \<Rightarrow> error + int" where
  "bottomLoop v lineN screenY numLines =
     (if lineN < Topline v + Height v then
        (case wrapLine v (Line (Buf v) lineN) (0, screenY) of
           Inl e \<Rightarrow> Inl e
         | Inr (screenX', screenY') \<Rightarrow>
             if screenY' + 1 \<ge> Height v then Inr (numLines + 1)
             else bottomLoop v (lineN + 1) (screenY' + 1) (numLines + 1))
      else Inr numLines)"
  by pat_completeness auto
termination
  by (relation "measure (\<lambda>(v, lineN, screenY, numLines). nat (Topline v + Height v - lineN))")
    auto

definition Bottomline :: "View \<Rightarrow> error + int" where
  "Bottomline v =
     (case asBool ''softwrap'' (Settings (Buf v) ''softwrap'') of
        Inl e \<Rightarrow> Inl e
      | Inr softwrap \<Rightarrow>
          if \<not> softwrap then Inr (Topline v + Height v)
          else (case bottomLoop v (Topline v) 0 0 of
                  Inl e \<Rightarrow> Inl e
                | Inr numLines \<Rightarrow> Inr (numLines + Topline v)))"

subsection \<open>Relocate\<close>

text \<open>
  \<^verbatim>\<open>Relocate\<close> moves the window so that the cursor is in view and returns whether it
  assigned anything. Its first half keeps the cursor's line away from the top and the
  bottom edge by the scroll margin: the two \<^verbatim>\<open>if\<close> statements are the bindings
  \<open>(v1, ret1)\<close> and \<open>(v2, ret2)\<close>.
\<close>

definition relocateLines :: "int \<Rightarrow> int \<Rightarrow> View \<Rightarrow> bool \<times> View" where
  "relocateLines height scrollmargin v =
     (let cy = Y (theCursor v);
          (v1, ret1) =
            (if cy < Topline v + scrollmargin \<and> cy > scrollmargin - 1
               then (v\<lparr>Topline := cy - scrollmargin\<rparr>, True)
             else if cy < Topline v then (v\<lparr>Topline := cy\<rparr>, True)
             else (v, False));
          (v2, ret2) =
            (if cy > Topline v1 + height - 1 - scrollmargin \<and> cy < NumLines (Buf v1) - scrollmargin
               then (v1\<lparr>Topline := cy - height + 1 + scrollmargin\<rparr>, True)
             else if cy \<ge> NumLines (Buf v1) - scrollmargin \<and> cy \<ge> height
               then (v1\<lparr>Topline := NumLines (Buf v1) - height\<rparr>, True)
             else (v1, ret1))
      in (ret2, v2))"

text \<open>
  Its second half, without softwrap only, keeps the cursor's visual column \<open>cx\<close> between
  the left and the right edge: the bindings \<open>(v3, ret3)\<close> and \<open>(v4, ret4)\<close>.
\<close>

definition relocateColumns :: "int \<Rightarrow> bool \<times> View \<Rightarrow> bool \<times> View" where
  "relocateColumns cx st =
     (let (ret2, v2) = st;
          (v3, ret3) =
            (if cx < leftCol v2 then (v2\<lparr>leftCol := cx\<rparr>, True) else (v2, ret2));
          (v4, ret4) =
            (if cx + lineNumOffset v3 + 1 > leftCol v3 + Width v3
               then (v3\<lparr>leftCol := cx - Width v3 + lineNumOffset v3 + 1\<rparr>, True)
             else (v3, ret3))
      in (ret4, v4))"

text \<open>\<^verbatim>\<open>Cursor.GetVisualX\<close> is the parameter \<open>GetVisualX\<close>.\<close>

definition Relocate :: "(Buffer \<Rightarrow> Cursor \<Rightarrow> int) \<Rightarrow> View \<Rightarrow> error + (bool \<times> View)" where
  "Relocate GetVisualX v =
     (case Bottomline v of
        Inl e \<Rightarrow> Inl e
      | Inr bottomline \<Rightarrow>
     (case asInt ''scrollmargin'' (Settings (Buf v) ''scrollmargin'') of
        Inl e \<Rightarrow> Inl e
      | Inr scrollmargin \<Rightarrow>
     (let (ret2, v2) = relocateLines (bottomline - Topline v) scrollmargin v
      in (case asBool ''softwrap'' (Settings (Buf v2) ''softwrap'') of
            Inl e \<Rightarrow> Inl e
          | Inr softwrap \<Rightarrow>
              if \<not> softwrap
              then Inr (relocateColumns (GetVisualX (Buf v2) (theCursor v2)) (ret2, v2))
              else Inr (ret2, v2)))))"

subsection \<open>Gutter messages\<close>

text \<open>
  The two nested \<^verbatim>\<open>range\<close> loops of \<^verbatim>\<open>GutterMessage\<close>: some message of some section
  has the line number \<open>lineN\<close>.
\<close>

definition hasMessageAt :: "(string \<times> GutterMessage list) list \<Rightarrow> int \<Rightarrow> bool" where
  "hasMessageAt ms lineN = list_ex (\<lambda>(section, gs). list_ex (\<lambda>gmsg. lineNum gmsg = lineN) gs) ms"

text \<open>\<^verbatim>\<open>v.messages[section]\<close>: \<^verbatim>\<open>nil\<close>, the empty slice, for a section that has no entry.\<close>

definition messagesOf :: "(string \<times> GutterMessage list) list \<Rightarrow> string \<Rightarrow> GutterMessage list" where
  "messagesOf ms section = (case map_of ms section of None \<Rightarrow> [] | Some gs \<Rightarrow> gs)"

definition GutterMessage :: "string \<Rightarrow> int \<Rightarrow> string \<Rightarrow> int \<Rightarrow> View \<Rightarrow> View" where
  "GutterMessage section lineN m k v =
     (let lineN = wrap64 (lineN - 1);
          gutterMsg = \<lparr>lineNum = lineN, msg = m, kind = k\<rparr>
      in if hasMessageAt (messages v) lineN then v
         else v\<lparr>messages :=
                  AList.update section (messagesOf (messages v) section @ [gutterMsg]) (messages v)\<rparr>)"

subsection \<open>DisplayView\<close>

text \<open>\<^verbatim>\<open>len(strconv.Itoa(n))\<close>: the decimal digits of n, and the sign of a negative n.\<close>

fun digits :: "nat \<Rightarrow> nat" where
  "digits n = (if n < 10 then 1 else 1 + digits (n div 10))"

definition itoaLen :: "int \<Rightarrow> int" where
  "itoaLen n = (if n < 0 then 1 + int (digits (nat (- n))) else int (digits (nat n)))"

text \<open>
  The width of the gutter as \<^verbatim>\<open>DisplayView\<close> computes it: the line numbers and a
  space when the ruler is on, two cells when there are gutter messages, one cell for the
  divider of a split that is not the leftmost.
\<close>

definition gutterWidth :: "View \<Rightarrow> View" where
  "gutterWidth v2 =
     (let maxLineNumLength = itoaLen (NumLines (Buf v2));
          v3 = (if Settings (Buf v2) ''ruler'' = Some (VBool True)
                then v2\<lparr>lineNumOffset := maxLineNumLength + 1\<rparr>
                else v2\<lparr>lineNumOffset := 0\<rparr>);
          hasGutterMessages = list_ex (\<lambda>(section, gs). length gs > 0) (messages v3);
          v4 = (if hasGutterMessages then v3\<lparr>lineNumOffset := lineNumOffset v3 + 2\<rparr> else v3)
      in if view_x v4 \<noteq> 0 then v4\<lparr>lineNumOffset := lineNumOffset v4 + 1\<rparr> else v4)"

text \<open>
  \<^verbatim>\<open>DisplayView\<close>, as far as it changes the View. The terminal's \<^verbatim>\<open>Display\<close> is the
  parameter \<open>termDisplay\<close>. The loop that draws the cells (from \<^verbatim>\<open>v.cellview.Draw\<close> on)
  reads the scroll offsets and writes to the screen; of the View it assigns only
  \<^verbatim>\<open>v.Cursor\<close> and \<^verbatim>\<open>v.Buf.curCursor\<close>, through \<^verbatim>\<open>SetCursor\<close>. It is the parameter
  \<open>drawCells\<close>, which returns the two values it leaves there, or a panic.
\<close>

definition DisplayView ::
  "(Buffer \<Rightarrow> Cursor \<Rightarrow> int) \<Rightarrow> (View \<Rightarrow> View) \<Rightarrow> (View \<Rightarrow> error + (nat \<times> int)) \<Rightarrow> View
     \<Rightarrow> error + View" where
  "DisplayView GetVisualX termDisplay drawCells v =
     (if Type v = vtTerm then Inr (termDisplay v)
      else
     (case asBool ''softwrap'' (Settings (Buf v) ''softwrap'') of
        Inl e \<Rightarrow> Inl e
      | Inr softwrap \<Rightarrow>
     (let v1 = (if softwrap \<and> leftCol v \<noteq> 0 then v\<lparr>leftCol := 0\<rparr> else v)
      in
     (case (if Type v1 = vtLog \<or> Type v1 = vtRaw
            then (case Relocate GetVisualX v1 of Inl e \<Rightarrow> Inl e | Inr (ret, v') \<Rightarrow> Inr v')
            else Inr v1) of
        Inl e \<Rightarrow> Inl e
      | Inr v2 \<Rightarrow>
     (case drawCells (gutterWidth v2) of
        Inl e \<Rightarrow> Inl e
      | Inr (c, n) \<Rightarrow>
          Inr ((gutterWidth v2)\<lparr>Cursor := c, Buf := (Buf (gutterWidth v2))\<lparr>curCursor := n\<rparr>\<rparr>))))))"

subsection \<open>The editor state seen by a dispatch\<close>

text \<open>
  \<^verbatim>\<open>ExecuteActions\<close> works on \<^verbatim>\<open>CurView()\<close>, not on its receiver, so a dispatch is a
  function of the views, kept by address, and of the address \<open>curView\<close> that
  \<^verbatim>\<open>CurView()\<close> returns (the view \<^verbatim>\<open>tabs[curTab].Views[tabs[curTab].CurView]\<close>).
  \<open>recordingMacro\<close> and \<open>curMacro\<close> are the two globals of the macro recorder; a recorded
  action is kept by its name.
\<close>

datatype macroItem = MacroAction string | MacroRune char

record World =
  views :: "nat \<Rightarrow> View"
  curView :: nat
  recordingMacro :: bool
  curMacro :: "macroItem list"

text \<open>
  An action is a function value \<^verbatim>\<open>func(*View, bool) bool\<close>. \<open>funcName\<close> is what
  \<^verbatim>\<open>ShortFuncName\<close> returns for it, \<open>call\<close> its effect when called with a view and
  \<^verbatim>\<open>true\<close>. A mouse action also takes the event and its result is dropped.
\<close>

record Action =
  funcName :: string
  call :: "nat \<Rightarrow> World \<Rightarrow> bool \<times> World"

definition setView :: "nat \<Rightarrow> View \<Rightarrow> World \<Rightarrow> World" where
  "setView a v w = w\<lparr>views := (views w)(a := v)\<rparr>"

subsection \<open>ExecuteActions\<close>

definition readonlyBindingsList :: "string list" where
  "readonlyBindingsList =
     [''Delete'', ''Insert'', ''Backspace'', ''Cut'', ''Play'', ''Paste'', ''Move'', ''Add'',
      ''DuplicateLine'', ''Macro'']"

text \<open>\<^verbatim>\<open>strings.HasPrefix\<close> and \<^verbatim>\<open>strings.Contains\<close>.\<close>

fun HasPrefix :: "string \<Rightarrow> string \<Rightarrow> bool" where
  "HasPrefix s [] = True"
| "HasPrefix [] (p # ps) = False"
| "HasPrefix (c # s) (p # ps) = (c = p \<and> HasPrefix s ps)"

fun Contains :: "string \<Rightarrow> string \<Rightarrow> bool" where
  "Contains [] sub = HasPrefix [] sub"
| "Contains (c # s) sub = (HasPrefix (c # s) sub \<or> Contains s sub)"

text \<open>
  The flag \<^verbatim>\<open>readonlyBindingsResult\<close> of one loop step: the current view is read-only
  and the action's name contains an entry of the list.
\<close>

definition readonlyBindingsResult :: "World \<Rightarrow> string \<Rightarrow> bool" where
  "readonlyBindingsResult w name =
     (Readonly (Type (views w (curView w))) \<and> list_ex (Contains name) readonlyBindingsList)"

text \<open>
  The block of \<^verbatim>\<open>ExecuteActions\<close> that calls the key binding: the action runs on the
  current view, its result is or-ed into \<^verbatim>\<open>relocate\<close>, and it is appended to the macro
  when one is being recorded and it is neither ToggleMacro nor PlayMacro.
\<close>

definition callBinding :: "Action \<Rightarrow> bool \<times> World \<Rightarrow> bool \<times> World" where
  "callBinding action st =
     (let (relocate, w) = st;
          (r, w1) = call action (curView w) w;
          w2 = (if funcName action \<noteq> ''ToggleMacro'' \<and> funcName action \<noteq> ''PlayMacro''
                   \<and> recordingMacro w1
                then w1\<lparr>curMacro := curMacro w1 @ [MacroAction (funcName action)]\<rparr>
                else w1)
      in (r \<or> relocate, w2))"

fun executeLoop :: "Action list \<Rightarrow> bool \<times> World \<Rightarrow> bool \<times> World" where
  "executeLoop [] st = st"
| "executeLoop (action # actions) (relocate, w) =
     (if \<not> readonlyBindingsResult w (funcName action)
      then executeLoop actions (callBinding action (relocate, w))
      else executeLoop actions (relocate, w))"

definition ExecuteActions :: "Action list \<Rightarrow> World \<Rightarrow> bool \<times> World" where
  "ExecuteActions actions w = executeLoop actions (False, w)"


definition isMutatingName :: "string \<Rightarrow> bool" where
  "isMutatingName name = list_ex (Contains name) readonlyBindingsList"

text \<open>
  The pane of a dispatch is the current view, which \<^verbatim>\<open>ExecuteActions\<close> reads anew
  before each action. It is read-only throughout the dispatch when the current view is
  read-only before every action of the list, an action that ran before having changed the
  state.
\<close>

fun readonlyThroughout :: "Action list \<Rightarrow> World \<Rightarrow> bool" where
  "readonlyThroughout [] w = True"
| "readonlyThroughout (action # actions) w =
     (Readonly (Type (views w (curView w)))
      \<and> readonlyThroughout actions
           (if isMutatingName (funcName action) then w else snd (callBinding action (False, w))))"

subsection \<open>HandleEvent\<close>

text \<open>The events of the terminal library, and the keys of the binding tables.\<close>

datatype Event =
    EventRaw string
  | EventKey int char int
  | EventPaste string
  | EventMouse int int int int
  | EventResize int int

record Key =
  keyCode :: int
  modifiers :: int
  buttons :: int
  rune :: char
  escape :: string

definition KeyRune :: int where
  "KeyRune = 256"

definition KeyCtrlQ :: int where
  "KeyCtrlQ = 17"

definition ButtonNone :: int where
  "ButtonNone = 0"

definition Button1 :: int where
  "Button1 = 1"

definition WheelUp :: int where
  "WheelUp = 256"

definition WheelDown :: int where
  "WheelDown = 512"

record MouseAction =
  mouseCall :: "Event \<Rightarrow> nat \<Rightarrow> World \<Rightarrow> World"

text \<open>
  The collaborators of \<^verbatim>\<open>HandleEvent\<close>: the binding tables and the methods of Buffer,
  Cursor, Completer, Terminal and the plugin host that it calls. A method of a cursor takes
  the cursor's address. \<open>eventType\<close> is the name of the event's dynamic type and
  \<open>eventEscSeq\<close> the line that \<^verbatim>\<open>Sprintf\<close> formats from its escape sequence.
\<close>

record Env =
  bindings :: "(Key \<times> Action list) list"
  mouseBindings :: "(Key \<times> MouseAction list) list"
  GetVisualX :: "Buffer \<Rightarrow> Cursor \<Rightarrow> int"
  GetCharPosInLine :: "Buffer \<Rightarrow> Cursor \<Rightarrow> int \<Rightarrow> int \<Rightarrow> int"
  HasSelection :: "Cursor \<Rightarrow> bool"
  DeleteSelection :: "nat \<Rightarrow> Buffer \<Rightarrow> Buffer"
  ResetSelection :: "nat \<Rightarrow> Buffer \<Rightarrow> Buffer"
  SetSelectionEnd :: "Loc \<Rightarrow> nat \<Rightarrow> Buffer \<Rightarrow> Buffer"
  CopySelection :: "string \<Rightarrow> nat \<Rightarrow> Buffer \<Rightarrow> Buffer"
  Insert :: "Loc \<Rightarrow> string \<Rightarrow> Buffer \<Rightarrow> Buffer"
  Replace :: "Loc \<Rightarrow> Loc \<Rightarrow> string \<Rightarrow> Buffer \<Rightarrow> Buffer"
  CheckModTime :: "Buffer \<Rightarrow> Buffer"
  MergeCursors :: "Buffer \<Rightarrow> Buffer"
  termHandleEvent :: "Event \<Rightarrow> nat \<Rightarrow> World \<Rightarrow> World"
  Quit :: "nat \<Rightarrow> World \<Rightarrow> World"
  eventType :: "Event \<Rightarrow> string"
  eventEscSeq :: "Event \<Rightarrow> string"
  CompleterHandleEvent :: "int \<Rightarrow> nat \<Rightarrow> World \<Rightarrow> bool \<times> World"
  CompleterProcess :: "char \<Rightarrow> nat \<Rightarrow> World \<Rightarrow> World"
  DeactivateIfOutOfBounds :: "nat \<Rightarrow> World \<Rightarrow> World"
  onRune :: "char \<Rightarrow> nat \<Rightarrow> World \<Rightarrow> World"
  PreActionCall :: "string \<Rightarrow> nat \<Rightarrow> World \<Rightarrow> bool \<times> World"
  PostActionCall :: "string \<Rightarrow> nat \<Rightarrow> World \<Rightarrow> World"
  GetLeadingWhitespace :: "string \<Rightarrow> string"

text \<open>\<^verbatim>\<open>SetCursor\<close>: refuses \<^verbatim>\<open>nil\<close>, else makes the cursor the active one.\<close>

definition SetCursor :: "nat option \<Rightarrow> View \<Rightarrow> bool \<times> View" where
  "SetCursor c v =
     (case c of
        None \<Rightarrow> (False, v)
      | Some p \<Rightarrow> (True, v\<lparr>Cursor := p, Buf := (Buf v)\<lparr>curCursor := Num (store (Buf v) p)\<rparr>\<rparr>))"

text \<open>\<^verbatim>\<open>v.SetCursor(&v.Buf.Cursor)\<close> followed, where the source does so, by \<^verbatim>\<open>MergeCursors\<close>.\<close>

definition resetCursor :: "nat \<Rightarrow> World \<Rightarrow> World" where
  "resetCursor a w = setView a (snd (SetCursor (Some 0) (views w a))) w"

definition mergeCursors :: "Env \<Rightarrow> nat \<Rightarrow> World \<Rightarrow> World" where
  "mergeCursors env a w = setView a ((views w a)\<lparr>Buf := MergeCursors env (Buf (views w a))\<rparr>) w"

text \<open>
  The loop over the cursors of a binding. The slice is the one the loop started with. In
  the raw and key cases \<^verbatim>\<open>relocate\<close> is set to false before each ExecuteActions
  (\<open>reset\<close>), in the mouse case it is not. The second component is \<^verbatim>\<open>isBinding\<close>.
\<close>

fun cursorLoop ::
  "bool \<Rightarrow> Action list \<Rightarrow> nat \<Rightarrow> nat option list \<Rightarrow> bool \<times> bool \<times> World \<Rightarrow> bool \<times> bool \<times> World" where
  "cursorLoop reset actions a [] st = st"
| "cursorLoop reset actions a (c # cs) (relocate, isBinding, w) =
     (let (ok, v') = SetCursor c (views w a)
      in if \<not> ok then (relocate, isBinding, w)
         else (let (r, w1) = ExecuteActions actions (setView a v' w)
               in cursorLoop reset actions a cs
                    (if reset then r else (r \<or> relocate), True, w1)))"

definition runBinding :: "Env \<Rightarrow> bool \<Rightarrow> Action list \<Rightarrow> nat \<Rightarrow> bool \<times> bool \<times> World \<Rightarrow> bool \<times> bool \<times> World" where
  "runBinding env reset actions a st =
     (let (relocate, isBinding, w) =
            cursorLoop reset actions a (cursors (Buf (views (snd (snd st)) a))) st
      in (relocate, isBinding, mergeCursors env a (resetCursor a w)))"

text \<open>The search of the binding table for a raw escape sequence; it stops at the first match.\<close>

fun rawBindings :: "Env \<Rightarrow> nat \<Rightarrow> string \<Rightarrow> (Key \<times> Action list) list \<Rightarrow> bool \<times> bool \<times> World \<Rightarrow> bool \<times> bool \<times> World" where
  "rawBindings env a esc [] st = st"
| "rawBindings env a esc ((key, actions) # bs) st =
     (if keyCode key = - 1 \<and> esc = escape key then runBinding env True actions a st
      else rawBindings env a esc bs st)"

text \<open>The search for a key event: key code, rune of a rune key, and modifiers must agree.\<close>

fun keyBindings :: "Env \<Rightarrow> nat \<Rightarrow> int \<Rightarrow> char \<Rightarrow> int \<Rightarrow> (Key \<times> Action list) list \<Rightarrow> bool \<times> bool \<times> World \<Rightarrow> bool \<times> bool \<times> World" where
  "keyBindings env a k rn mods [] st = st"
| "keyBindings env a k rn mods ((key, actions) # bs) st =
     (if k = keyCode key then
        (if k = KeyRune \<and> rn \<noteq> rune key then keyBindings env a k rn mods bs st
         else if mods = modifiers key then runBinding env True actions a st
         else keyBindings env a k rn mods bs st)
      else keyBindings env a k rn mods bs st)"

text \<open>The search for a mouse event runs every binding that matches.\<close>

fun mouseKeyBindings :: "Env \<Rightarrow> nat \<Rightarrow> int \<Rightarrow> int \<Rightarrow> (Key \<times> Action list) list \<Rightarrow> bool \<times> bool \<times> World \<Rightarrow> bool \<times> bool \<times> World" where
  "mouseKeyBindings env a button mods [] st = st"
| "mouseKeyBindings env a button mods ((key, actions) # bs) st =
     (if button = buttons key \<and> mods = modifiers key
      then mouseKeyBindings env a button mods bs (runBinding env False actions a st)
      else mouseKeyBindings env a button mods bs st)"

fun mouseActions :: "Event \<Rightarrow> nat \<Rightarrow> int \<Rightarrow> int \<Rightarrow> (Key \<times> MouseAction list) list \<Rightarrow> World \<Rightarrow> World" where
  "mouseActions e a button mods [] w = w"
| "mouseActions e a button mods ((key, actions) # bs) w =
     (if button = buttons key \<and> mods = modifiers key
      then mouseActions e a button mods bs (foldl (\<lambda>w action. mouseCall action e a w) w actions)
      else mouseActions e a button mods bs w)"

text \<open>Reading and writing the active cursor \<^verbatim>\<open>*v.Cursor\<close>.\<close>

definition cursorLoc :: "View \<Rightarrow> Loc" where
  "cursorLoc v = (X (theCursor v), Y (theCursor v))"

definition updCursor :: "(Cursor \<Rightarrow> Cursor) \<Rightarrow> View \<Rightarrow> View" where
  "updCursor f v = v\<lparr>Buf := (Buf v)\<lparr>store := (store (Buf v))(Cursor v := f (theCursor v))\<rparr>\<rparr>"

definition updBuf :: "(Buffer \<Rightarrow> Buffer) \<Rightarrow> View \<Rightarrow> View" where
  "updBuf f v = v\<lparr>Buf := f (Buf v)\<rparr>"

text \<open>
  The body of the loop that inserts a typed rune at one cursor. The result of
  \<^verbatim>\<open>SetCursor\<close> is not looked at. The completer and the plugins' \<^verbatim>\<open>onRune\<close> are called
  after the insertion, and the rune is appended to the macro when one is being recorded.
\<close>

definition insertRune :: "Env \<Rightarrow> nat \<Rightarrow> char \<Rightarrow> nat option \<Rightarrow> World \<Rightarrow> World" where
  "insertRune env a rn c w =
     (let v = snd (SetCursor c (views w a));
          v1 = (if HasSelection env (theCursor v)
                then updBuf (ResetSelection env (Cursor v)) (updBuf (DeleteSelection env (Cursor v)) v)
                else v);
          v2 = (if isOverwriteMode v1
                then (let loc = cursorLoc v1; next = (fst loc + 1, snd loc)
                      in updBuf (Replace env loc next [rn]) v1)
                else updBuf (Insert env (cursorLoc v1) [rn]) v1);
          w1 = CompleterProcess env rn a (setView a v2 w);
          w2 = onRune env rn a w1
      in if recordingMacro w2 then w2\<lparr>curMacro := curMacro w2 @ [MacroRune rn]\<rparr> else w2)"

text \<open>\<^verbatim>\<open>strings.TrimLeft(clip, "\r\n")\<close> and \<^verbatim>\<open>strings.Replace(clip, "\n", "\n"+ws, -1)\<close>.\<close>

definition newline :: char where
  "newline = CHR 0x0A"

definition carriageReturn :: char where
  "carriageReturn = CHR 0x0D"

definition trimLeftNewlines :: "string \<Rightarrow> string" where
  "trimLeftNewlines clip = dropWhile (\<lambda>c. c = carriageReturn \<or> c = newline) clip"

definition indentNewlines :: "string \<Rightarrow> string \<Rightarrow> string" where
  "indentNewlines ws clip = concat (map (\<lambda>c. if c = newline then newline # ws else [c]) clip)"

text \<open>\<^verbatim>\<open>paste\<close>: the clipboard text goes in at the active cursor, replacing its selection.\<close>

definition paste :: "Env \<Rightarrow> string \<Rightarrow> View \<Rightarrow> error + View" where
  "paste env clip v =
     (case asBool ''smartpaste'' (Settings (Buf v) ''smartpaste'') of
        Inl e \<Rightarrow> Inl e
      | Inr smartpaste \<Rightarrow>
          (let clip1 =
                 (if smartpaste \<and> X (theCursor v) > 0
                       \<and> GetLeadingWhitespace env (trimLeftNewlines clip) = []
                  then indentNewlines (GetLeadingWhitespace env (Line (Buf v) (Y (theCursor v)))) clip
                  else clip);
               v1 = (if HasSelection env (theCursor v)
                     then updBuf (ResetSelection env (Cursor v)) (updBuf (DeleteSelection env (Cursor v)) v)
                     else v);
               v2 = updBuf (Insert env (cursorLoc v1) clip1) v1
           in Inr (v2\<lparr>freshClip := False\<rparr>)))"

fun pasteLoop :: "Env \<Rightarrow> nat \<Rightarrow> string \<Rightarrow> nat option list \<Rightarrow> World \<Rightarrow> error + World" where
  "pasteLoop env a clip [] w = Inr w"
| "pasteLoop env a clip (c # cs) w =
     (case paste env clip (snd (SetCursor c (views w a))) of
        Inl e \<Rightarrow> Inl e
      | Inr v' \<Rightarrow> pasteLoop env a clip cs (setView a v' w))"

text \<open>\<^verbatim>\<open>Count\<close>: the number of runes of a string.\<close>

definition Count :: "string \<Rightarrow> int" where
  "Count s = int (length s)"

text \<open>
  \<^verbatim>\<open>GetSoftWrapLocation\<close>. The inner loop over one line returns \<open>Inl\<close> of the location
  when it reaches the clicked cell, else \<open>Inr\<close> of \<^verbatim>\<open>(screenX, screenY, colN)\<close>.
\<close>

fun softWrapLine ::
  "View \<Rightarrow> int \<Rightarrow> int \<Rightarrow> int \<Rightarrow> string \<Rightarrow> int \<times> int \<times> int \<Rightarrow> error + (Loc + int \<times> int \<times> int)" where
  "softWrapLine v vx vy lineN [] st = Inr (Inr st)"
| "softWrapLine v vx vy lineN (ch # line) (screenX, screenY, colN) =
     (let (screenX, screenY) =
            (if screenX \<ge> Width v - lineNumOffset v then (0, screenY + 1)
             else (screenX, screenY))
      in if screenX = vx \<and> screenY = vy then Inr (Inl (colN, lineN))
         else if ch = tab then
           (case asInt ''tabsize'' (Settings (Buf v) ''tabsize'') of
              Inl e \<Rightarrow> Inl e
            | Inr tabsize \<Rightarrow>
                softWrapLine v vx vy lineN line (screenX + (tabsize - 1) + 1, screenY, colN + 1))
         else softWrapLine v vx vy lineN line (screenX + 1, screenY, colN + 1))"

function softWrapLoop :: "View \<Rightarrow> int \<Rightarrow> int \<Rightarrow> int \<Rightarrow> int \<Rightarrow> int \<Rightarrow> error + Loc" where
  "softWrapLoop v bottom vx vy lineN screenY =
     (if lineN < bottom then
        (if lineN \<ge> NumLines (Buf v) then Inr (0, NumLines (Buf v) - 1)
         else (case softWrapLine v vx vy lineN (Line (Buf v) lineN) (0, screenY, 0) of
                 Inl e \<Rightarrow> Inl e
               | Inr (Inl found) \<Rightarrow> Inr found
               | Inr (Inr (screenX', screenY', colN)) \<Rightarrow>
                   if screenY' = vy then Inr (colN, lineN)
                   else softWrapLoop v bottom vx vy (lineN + 1) (screenY' + 1)))
      else Inr (0, 0))"
  by pat_completeness auto
termination
  by (relation "measure (\<lambda>(v, bottom, vx, vy, lineN, screenY). nat (bottom - lineN))") auto

definition GetSoftWrapLocation :: "Env \<Rightarrow> int \<Rightarrow> int \<Rightarrow> View \<Rightarrow> error + Loc" where
  "GetSoftWrapLocation env vx vy v =
     (case asBool ''softwrap'' (Settings (Buf v) ''softwrap'') of
        Inl e \<Rightarrow> Inl e
      | Inr softwrap \<Rightarrow>
          if \<not> softwrap then
            (let vy1 = (if vy \<ge> NumLines (Buf v) then NumLines (Buf v) - 1 else vy)
             in Inr (GetCharPosInLine env (Buf v) (theCursor v) vy1 vx, vy1))
          else (case Bottomline v of
                  Inl e \<Rightarrow> Inl e
                | Inr bottom \<Rightarrow> softWrapLoop v bottom vx vy (Topline v) (Topline v)))"

text \<open>\<^verbatim>\<open>MoveToMouseClick\<close>: the active cursor goes to the clicked location.\<close>

definition MoveToMouseClick :: "Env \<Rightarrow> int \<Rightarrow> int \<Rightarrow> View \<Rightarrow> error + View" where
  "MoveToMouseClick env mx my v =
     (let (v1, y1) =
            (if my - Topline v > Height v - 1
             then (let v' = ScrollDown 1 v in (v', Height v' + Topline v' - 1))
             else (v, my));
          y2 = (if y1 < 0 then 0 else y1);
          x2 = (if mx < 0 then 0 else mx)
      in (case GetSoftWrapLocation env x2 y2 v1 of
            Inl e \<Rightarrow> Inl e
          | Inr (x3, y3) \<Rightarrow>
              (let x4 = (if x3 > Count (Line (Buf v1) y3) then Count (Line (Buf v1) y3) else x3);
                   v2 = updCursor (\<lambda>c. c\<lparr>X := x4, Y := y3\<rparr>) v1
               in Inr (updCursor (\<lambda>c. c\<lparr>LastVisualX := GetVisualX env (Buf v2) (theCursor v2)\<rparr>) v2))))"

text \<open>
  The end of the mouse case: a mouse event without a button after a press is the release;
  unless a double or triple click is in progress the cursor moves there and the selection
  ends there.
\<close>

definition mouseRelease :: "Env \<Rightarrow> int \<Rightarrow> int \<Rightarrow> View \<Rightarrow> error + View" where
  "mouseRelease env ex ey v =
     (if \<not> mouseReleased v then
        (let mx = ex - (lineNumOffset v - leftCol v + view_x v);
             my = ey + (Topline v - view_y v)
         in (case (if \<not> doubleClick v \<and> \<not> tripleClick v
                   then (case MoveToMouseClick env mx my v of
                           Inl e \<Rightarrow> Inl e
                         | Inr v1 \<Rightarrow>
                             Inr (updBuf (CopySelection env ''primary'' (Cursor v1))
                                    (updBuf (SetSelectionEnd env (cursorLoc v1) (Cursor v1)) v1)))
                   else Inr v) of
               Inl e \<Rightarrow> Inl e
             | Inr v2 \<Rightarrow> Inr (v2\<lparr>mouseReleased := True\<rparr>)))
      else Inr v)"

text \<open>
  The \<^verbatim>\<open>switch\<close> of \<^verbatim>\<open>HandleEvent\<close> on the type of the event. It returns \<^verbatim>\<open>relocate\<close>
  and the new state.
\<close>

definition handleSwitch :: "Env \<Rightarrow> nat \<Rightarrow> Event \<Rightarrow> World \<Rightarrow> error + bool \<times> World" where
  "handleSwitch env a event w =
     (case event of
        EventRaw esc \<Rightarrow>
          (let (relocate, isBinding, w1) = rawBindings env a esc (bindings env) (True, False, w)
           in Inr (relocate, w1))
      | EventKey k rn mods \<Rightarrow>
          (let (taken, w1) = CompleterHandleEvent env k a w
           in if taken then Inr (True, w1)
              else
                (let (relocate, isBinding, w2) =
                       keyBindings env a k rn mods (bindings env) (True, False, w1)
                 in if \<not> isBinding \<and> k = KeyRune \<and> \<not> Readonly (Type (views w2 a))
                    then Inr (relocate,
                           resetCursor a
                             (foldl (\<lambda>w c. insertRune env a rn c w) w2 (cursors (Buf (views w2 a)))))
                    else Inr (relocate, w2)))
      | EventPaste clip \<Rightarrow>
          (if Readonly (Type (views w a)) = False then
             (let (go, w1) = PreActionCall env ''Paste'' a w
              in if \<not> go then Inr (True, w1)
                 else (case pasteLoop env a clip (cursors (Buf (views w1 a))) w1 of
                         Inl e \<Rightarrow> Inl e
                       | Inr w2 \<Rightarrow> Inr (True, PostActionCall env ''Paste'' a (resetCursor a w2))))
           else Inr (True, w))
      | EventMouse button mods ex ey \<Rightarrow>
          (let (relocate, isBinding, w1) =
                 mouseKeyBindings env a button mods (bindings env) (False, False, w);
               w2 = mouseActions event a button mods (mouseBindings env) w1
           in if button = ButtonNone then
                (case mouseRelease env ex ey (views w2 a) of
                   Inl e \<Rightarrow> Inl e
                 | Inr v' \<Rightarrow> Inr (relocate, setView a v' w2))
              else Inr (relocate, w2))
      | EventResize width height \<Rightarrow> Inr (True, w))"

text \<open>\<^verbatim>\<open>v.Relocate()\<close> on the view at an address.\<close>

definition relocateView :: "Env \<Rightarrow> nat \<Rightarrow> World \<Rightarrow> error + World" where
  "relocateView env a w =
     (case Relocate (GetVisualX env) (views w a) of
        Inl e \<Rightarrow> Inl e
      | Inr (ret, v') \<Rightarrow> Inr (setView a v' w))"

text \<open>
  \<^verbatim>\<open>HandleEvent\<close>. A terminal view passes the event on; a raw view writes the event into
  its buffer; any other view checks the file's modification time, dispatches, relocates
  twice when asked to, and lets the completer close.
\<close>

definition HandleEvent :: "Env \<Rightarrow> nat \<Rightarrow> Event \<Rightarrow> World \<Rightarrow> error + World" where
  "HandleEvent env a event w =
     (if Type (views w a) = vtTerm then Inr (termHandleEvent env event a w)
      else if Type (views w a) = vtRaw then
        (let v1 = updBuf (Insert env (cursorLoc (views w a)) (drop 7 (eventType env event))) (views w a);
             v2 = updBuf (Insert env (cursorLoc v1) (eventEscSeq env event)) v1;
             w1 = setView a v2 w
         in (case event of
               EventKey k rn mods \<Rightarrow> if k = KeyCtrlQ then Inr (Quit env a w1) else Inr w1
             | _ \<Rightarrow> Inr w1))
      else
        (case handleSwitch env a event (setView a (updBuf (CheckModTime env) (views w a)) w) of
           Inl e \<Rightarrow> Inl e
         | Inr (relocate, w1) \<Rightarrow>
             (case (if relocate
                    then (case relocateView env a w1 of
                            Inl e \<Rightarrow> Inl e
                          | Inr w2 \<Rightarrow> relocateView env a w2)
                    else Inr w1) of
                Inl e \<Rightarrow> Inl e
              | Inr w3 \<Rightarrow> Inr (DeactivateIfOutOfBounds env a w3))))"

subsection \<open>The main loop\<close>

text \<open>
  The part of the editor the main loop reads itself: the views of the current tab, the
  index \<^verbatim>\<open>tabs[curTab].CurView\<close>, the flag \<^verbatim>\<open>searching\<close>, the messenger's message, the
  option \<^verbatim>\<open>infobar\<close> and the height of the screen. \<open>edRest\<close> is everything else.
\<close>

record 'x Editor =
  edViews :: "View list"
  edCurView :: int
  edSearching :: bool
  edMessage :: string
  edInfobar :: "setting option"
  edScreenH :: int
  edRest :: 'x

text \<open>
  The functions the loop calls: the redraw, the callback of a finished job, the autosave
  of the current view, the terminal's close, the resize of the tabs, the copy of the
  message to the clipboard, HandleEvent of the view with a given number, the tab bar's
  handler, and the search handler.
\<close>

record 'x Handlers =
  RedrawAll :: "'x Editor \<Rightarrow> 'x Editor"
  jobFunction :: "nat \<Rightarrow> 'x Editor \<Rightarrow> 'x Editor"
  autosaveCurView :: "'x Editor \<Rightarrow> 'x Editor"
  CloseTerminal :: "int \<Rightarrow> 'x Editor \<Rightarrow> 'x Editor"
  ResizeTabs :: "'x Editor \<Rightarrow> 'x Editor"
  copyMessage :: "'x Editor \<Rightarrow> 'x Editor"
  viewHandleEvent :: "int \<Rightarrow> Event \<Rightarrow> 'x Editor \<Rightarrow> 'x Editor"
  TabbarHandleMouseEvent :: "Event \<Rightarrow> 'x Editor \<Rightarrow> bool \<times> 'x Editor"
  HandleSearchEvent :: "Event \<Rightarrow> 'x Editor \<Rightarrow> 'x Editor"

text \<open>The loops over the views of the tab: the last view that contains the point.\<close>

definition inside :: "int \<Rightarrow> int \<Rightarrow> View \<Rightarrow> bool" where
  "inside px py v =
     (px \<ge> view_x v \<and> px < view_x v + Width v \<and> py \<ge> view_y v \<and> py < view_y v + Height v)"

definition lastViewAt :: "int \<Rightarrow> int \<Rightarrow> View list \<Rightarrow> int option" where
  "lastViewAt px py vs =
     foldl (\<lambda>found v. if inside px py v then Some (ViewNum v) else found) None vs"

text \<open>\<^verbatim>\<open>CurView()\<close>, an index into the views.\<close>

definition curViewOf :: "'x Editor \<Rightarrow> error + View" where
  "curViewOf s =
     (if 0 \<le> edCurView s \<and> nat (edCurView s) < length (edViews s)
      then Inr (edViews s ! nat (edCurView s)) else Inl IndexOutOfRange)"

text \<open>
  The \<^verbatim>\<open>switch\<close> at the head of the inner loop. It returns \<^verbatim>\<open>didAction\<close> and the new
  state: a resize re-lays the tabs; a left click on the message line copies the message and
  otherwise, when the mouse had been released, focuses the view under it; a wheel event
  goes to the view under it.
\<close>

definition eventSwitch :: "'x Handlers \<Rightarrow> Event \<Rightarrow> 'x Editor \<Rightarrow> error + bool \<times> 'x Editor" where
  "eventSwitch h event s =
     (case event of
        EventResize width height \<Rightarrow> Inr (False, ResizeTabs h s)
      | EventMouse button mods px py \<Rightarrow>
          if \<not> edSearching s then
            (if button = Button1 then
               (case (if py = edScreenH s - 1 \<and> edMessage s \<noteq> []
                      then asBool ''infobar'' (edInfobar s) else Inr False) of
                  Inl e \<Rightarrow> Inl e
                | Inr onMessage \<Rightarrow>
                    if onMessage then Inr (False, copyMessage h s)
                    else (case curViewOf s of
                            Inl e \<Rightarrow> Inl e
                          | Inr cur \<Rightarrow>
                              if mouseReleased cur then
                                (case lastViewAt px py (edViews s) of
                                   None \<Rightarrow> Inr (False, s)
                                 | Some n \<Rightarrow> Inr (False, s\<lparr>edCurView := n\<rparr>))
                              else Inr (False, s)))
             else if button = WheelUp \<or> button = WheelDown then
               (case lastViewAt px py (edViews s) of
                  None \<Rightarrow> Inr (False, s)
                | Some n \<Rightarrow> Inr (True, viewHandleEvent h n event s))
             else Inr (False, s))
          else Inr (False, s)
      | _ \<Rightarrow> Inr (False, s))"

text \<open>
  The body of the inner loop for one event. The first component says that the loop was
  left by \<^verbatim>\<open>break\<close>: the tab bar took the event.
\<close>

definition processEvent :: "'x Handlers \<Rightarrow> Event \<Rightarrow> 'x Editor \<Rightarrow> error + bool \<times> 'x Editor" where
  "processEvent h event s =
     (case eventSwitch h event s of
        Inl e \<Rightarrow> Inl e
      | Inr (didAction, s1) \<Rightarrow>
          if \<not> didAction then
            (let (taken, s2) = TabbarHandleMouseEvent h event s1
             in if taken then Inr (True, s2)
                else (case curViewOf s2 of
                        Inl e \<Rightarrow> Inl e
                      | Inr cur \<Rightarrow>
                          if edSearching s2 then Inr (False, HandleSearchEvent h event s2)
                          else Inr (False, viewHandleEvent h (edCurView s2) event s2)))
          else Inr (False, s1))"

text \<open>
  The inner loop \<^verbatim>\<open>for event != nil\<close>: after an event, the non-blocking \<^verbatim>\<open>select\<close> takes
  the next one from the channel, here the list of the events that are waiting, and ends the
  loop when there is none. It returns the events left in the channel.
\<close>

fun drain :: "'x Handlers \<Rightarrow> Event \<Rightarrow> Event list \<Rightarrow> 'x Editor \<Rightarrow> error + Event list \<times> 'x Editor" where
  "drain h event [] s =
     (case processEvent h event s of
        Inl e \<Rightarrow> Inl e
      | Inr (broke, s1) \<Rightarrow> Inr ([], s1))"
| "drain h event (next # waiting) s =
     (case processEvent h event s of
        Inl e \<Rightarrow> Inl e
      | Inr (broke, s1) \<Rightarrow>
          if broke then Inr (next # waiting, s1) else drain h next waiting s1)"

text \<open>
  The case the blocking \<^verbatim>\<open>select\<close> of one iteration takes. The loop never returns; the
  model runs it for the given sequence of cases and stops where the \<^verbatim>\<open>select\<close> after
  them would block, after the redraw that precedes it. A case \<open>RecvEvent\<close> with an empty
  channel cannot be taken and blocks as well.
\<close>

datatype Select = RecvJob nat | RecvAutosave | RecvUpdateterm | RecvCloseterm int | RecvEvent

fun mainLoop :: "'x Handlers \<Rightarrow> Select list \<Rightarrow> Event list \<Rightarrow> 'x Editor \<Rightarrow> error + Event list \<times> 'x Editor" where
  "mainLoop h [] waiting s = Inr (waiting, RedrawAll h s)"
| "mainLoop h (c # cs) waiting s =
     (let s1 = RedrawAll h s
      in case c of
           RecvJob j \<Rightarrow> mainLoop h cs waiting (jobFunction h j s1)
         | RecvAutosave \<Rightarrow> mainLoop h cs waiting (autosaveCurView h s1)
         | RecvUpdateterm \<Rightarrow> mainLoop h cs waiting s1
         | RecvCloseterm vnum \<Rightarrow> mainLoop h cs waiting (CloseTerminal h vnum s1)
         | RecvEvent \<Rightarrow>
             (case waiting of
                [] \<Rightarrow> Inr ([], s1)
              | event # rest \<Rightarrow>
                  (case drain h event rest s1 of
                     Inl e \<Rightarrow> Inl e
                   | Inr (waiting', s2) \<Rightarrow> mainLoop h cs waiting' s2)))"

text \<open>
  What the specification asks of a burst, in its own words: every waiting event is
  dispatched, one after the other, with no redraw in between.
\<close>

fun dispatchAll :: "'x Handlers \<Rightarrow> Event list \<Rightarrow> 'x Editor \<Rightarrow> error + 'x Editor" where
  "dispatchAll h [] s = Inr s"
| "dispatchAll h (event # events) s =
     (case processEvent h event s of
        Inl e \<Rightarrow> Inl e
      | Inr (broke, s1) \<Rightarrow> dispatchAll h events s1)"

subsection \<open>The settings file\<close>

text \<open>\<^verbatim>\<open>DefaultGlobalSettings\<close>.\<close>

definition DefaultGlobalSettings :: settings where
  "DefaultGlobalSettings = map_of
     [(''autoindent'', VBool True),
      (''autosave'', VBool False),
      (''basename'', VBool False),
      (''colorcolumn'', VFloat64 0),
      (''colorscheme'', VString ''default''),
      (''cursorline'', VBool True),
      (''eofnewline'', VBool False),
      (''fastdirty'', VBool True),
      (''fileformat'', VString ''unix''),
      (''hidehelp'', VBool False),
      (''ignorecase'', VBool False),
      (''indentchar'', VString '' ''),
      (''infobar'', VBool True),
      (''keepautoindent'', VBool False),
      (''keymenu'', VBool False),
      (''matchbrace'', VBool False),
      (''matchbraceleft'', VBool False),
      (''mouse'', VBool True),
      (''pluginchannels'',
         VSlice [''https://raw.githubusercontent.com/micro-editor/plugin-channel/master/channel.json'']),
      (''pluginrepos'', VSlice []),
      (''rmtrailingws'', VBool False),
      (''ruler'', VBool True),
      (''savecursor'', VBool False),
      (''savehistory'', VBool True),
      (''saveundo'', VBool False),
      (''scrollbar'', VBool False),
      (''scrollmargin'', VFloat64 3),
      (''scrollspeed'', VFloat64 2),
      (''softwrap'', VBool False),
      (''smartpaste'', VBool True),
      (''splitbottom'', VBool True),
      (''splitright'', VBool True),
      (''statusline'', VBool True),
      (''sucmd'', VString ''sudo''),
      (''syntax'', VBool True),
      (''tabmovement'', VBool False),
      (''tabsize'', VFloat64 4),
      (''tabstospaces'', VBool False),
      (''termtitle'', VBool False),
      (''useprimary'', VBool True),
      (''autocomplete'', VBool False)]"

text \<open>
  The file \<^verbatim>\<open>settings.json\<close> as the code meets it: absent (\<^verbatim>\<open>os.Stat\<close> fails), present
  but unreadable (\<^verbatim>\<open>ReadFile\<close> returns no bytes and an error), or present with a content.
\<close>

datatype fileState = Missing | Unreadable | Content string

text \<open>
  Calls into other files of the repository that SetOption makes after it has stored a
  value, recorded in the order they are made.
\<close>

datatype effect =
    InitColorscheme
  | UpdateRules nat
  | ResizeAllTabs
  | EnableMouse
  | DisableMouse
  | HashBuffers
  | RefreshModified
  | ToggleStatusLine nat
  | MarkModified nat
  | ClearMatches nat
  | HighlightStates nat

text \<open>
  The state of the configuration: the two globals \<open>globalSettings\<close> and
  \<open>invalidSettings\<close>, whether the configuration directory exists, the settings file, the
  settings of the buffer of every view of every tab (\<open>localSettings\<close>, in the order of the
  tabs and views) with the index of the current view, the messages printed by
  \<^verbatim>\<open>TermMessage\<close> and by \<^verbatim>\<open>messenger.Error\<close>, and the effects.
\<close>

record Config =
  globalSettings :: settings
  invalidSettings :: bool
  configDir :: bool
  settingsFile :: fileState
  localSettings :: "settings list"
  curViewIndex :: nat
  termMessages :: "string list"
  messengerErrors :: "string list"
  effects :: "effect list"

text \<open>
  The library functions the settings code calls: \<^verbatim>\<open>json5.Unmarshal\<close> into a map (the
  entries of the top-level object, or \<open>None\<close> for an error), \<^verbatim>\<open>json.MarshalIndent\<close>,
  \<^verbatim>\<open>ParseBool\<close>, \<^verbatim>\<open>strconv.Atoi\<close> and \<^verbatim>\<open>ColorschemeExists\<close>.
\<close>

record Lib =
  Unmarshal :: "string \<Rightarrow> (string \<times> setting) list option"
  MarshalIndent :: "settings \<Rightarrow> string"
  ParseBool :: "string \<Rightarrow> bool option"
  Atoi :: "string \<Rightarrow> int option"
  ColorschemeExists :: "string \<Rightarrow> bool"

text \<open>\<^verbatim>\<open>strings.HasPrefix(reflect.TypeOf(v).String(), "map")\<close>.\<close>

fun isMap :: "setting \<Rightarrow> bool" where
  "isMap (VMap kvs) = True"
| "isMap _ = False"

text \<open>
  The entries of \<^verbatim>\<open>parsed\<close> after the loop of WriteSettings: a value that is not a map
  and whose key is a global option is replaced by the global value.
\<close>

definition overrideGlobals :: "settings \<Rightarrow> settings \<Rightarrow> settings" where
  "overrideGlobals global parsed =
     (\<lambda>k. case parsed k of
             None \<Rightarrow> None
           | Some v \<Rightarrow> if \<not> isMap v \<and> global k \<noteq> None then global k else Some v)"

text \<open>
  \<^verbatim>\<open>WriteSettings\<close> returns its error, \<open>None\<close> for \<^verbatim>\<open>nil\<close>. The parameter
  \<^verbatim>\<open>filename\<close> of the source is shadowed and never used. A failed \<^verbatim>\<open>Unmarshal\<close> leaves
  \<^verbatim>\<open>parsed\<close> as it was, and the write itself succeeds.
\<close>

definition writeFile :: "Lib \<Rightarrow> settings \<Rightarrow> Config \<Rightarrow> Config" where
  "writeFile lib parsed c = c\<lparr>settingsFile := Content (MarshalIndent lib parsed @ [CHR 0x0A])\<rparr>"

definition WriteSettings :: "Lib \<Rightarrow> Config \<Rightarrow> string option \<times> Config" where
  "WriteSettings lib c =
     (if invalidSettings c then (None, c)
      else if configDir c then
        (case settingsFile c of
           Missing \<Rightarrow> (None, writeFile lib (globalSettings c) c)
         | Unreadable \<Rightarrow> (Some ''read error'', c)
         | Content input \<Rightarrow>
             if input \<noteq> ''null'' then
               (case Unmarshal lib input of
                  None \<Rightarrow>
                    (let c1 = c\<lparr>termMessages := termMessages c @ [''Error reading settings.json:''],
                                 invalidSettings := True\<rparr>
                     in (None, writeFile lib
                                 (overrideGlobals (globalSettings c1) (globalSettings c1)) c1))
                | Some kvs \<Rightarrow>
                    (None, writeFile lib
                             (overrideGlobals (globalSettings c) (globalSettings c ++ map_of (rev kvs))) c))
             else (None, writeFile lib (globalSettings c) c))
      else (None, c))"

text \<open>
  \<^verbatim>\<open>InitGlobalSettings\<close>. A content that starts with \<^verbatim>\<open>null\<close> is not parsed and the
  file is written anew; a file that cannot be read ends the function at once.
\<close>

definition loadGlobals :: "(string \<times> setting) list \<Rightarrow> settings" where
  "loadGlobals parsed = DefaultGlobalSettings ++ map_of (rev (filter (\<lambda>(k, v). \<not> isMap v) parsed))"

definition InitGlobalSettings :: "Lib \<Rightarrow> Config \<Rightarrow> Config" where
  "InitGlobalSettings lib c0 =
     (let c = c0\<lparr>invalidSettings := False\<rparr>
      in case settingsFile c of
           Unreadable \<Rightarrow>
             c\<lparr>termMessages := termMessages c @ [''Error reading settings.json file: ''],
               invalidSettings := True\<rparr>
         | Missing \<Rightarrow>
             (let c1 = c\<lparr>globalSettings := loadGlobals []\<rparr>;
                  (err, c2) = WriteSettings lib c1
              in case err of
                   None \<Rightarrow> c2
                 | Some e \<Rightarrow>
                     c2\<lparr>termMessages := termMessages c2 @ [''Error writing settings.json file: '' @ e]\<rparr>)
         | Content input \<Rightarrow>
             if \<not> HasPrefix input ''null'' then
               (case Unmarshal lib input of
                  None \<Rightarrow>
                    c\<lparr>termMessages := termMessages c @ [''Error reading settings.json:''],
                      invalidSettings := True,
                      globalSettings := loadGlobals []\<rparr>
                | Some parsed \<Rightarrow> c\<lparr>globalSettings := loadGlobals parsed\<rparr>)
             else
               (let c1 = c\<lparr>globalSettings := loadGlobals []\<rparr>;
                    (err, c2) = WriteSettings lib c1
                in case err of
                     None \<Rightarrow> c2
                   | Some e \<Rightarrow>
                       c2\<lparr>termMessages := termMessages c2 @ [''Error writing settings.json file: '' @ e]\<rparr>))"

subsection \<open>SetOption\<close>

text \<open>
  The conversion of the string to the type of the option's present value, by
  \<^verbatim>\<open>reflect.Kind\<close>. The result is the error message or the native value.
\<close>

definition nativeValue :: "Lib \<Rightarrow> setting \<Rightarrow> string \<Rightarrow> string + setting" where
  "nativeValue lib current val =
     (case current of
        VBool b \<Rightarrow>
          (case ParseBool lib val of None \<Rightarrow> Inl ''Invalid value'' | Some b' \<Rightarrow> Inr (VBool b'))
      | VString s \<Rightarrow> Inr (VString val)
      | VFloat64 x \<Rightarrow>
          (case Atoi lib val of None \<Rightarrow> Inl ''Invalid value'' | Some i \<Rightarrow> Inr (VFloat64 i))
      | _ \<Rightarrow> Inl ''Option has unsupported value type'')"

text \<open>The validators; \<open>None\<close> is \<^verbatim>\<open>nil\<close>.\<close>

definition validatePositiveValue :: "string \<Rightarrow> setting \<Rightarrow> string option" where
  "validatePositiveValue option val =
     (case val of
        VFloat64 tabsize \<Rightarrow>
          if tabsize < 1 then Some (option @ '' must be greater than 0'') else None
      | _ \<Rightarrow> Some (''Expected numeric type for '' @ option))"

definition validateNonNegativeValue :: "string \<Rightarrow> setting \<Rightarrow> string option" where
  "validateNonNegativeValue option val =
     (case val of
        VFloat64 x \<Rightarrow> if x < 0 then Some (option @ '' must be non-negative'') else None
      | _ \<Rightarrow> Some (''Expected numeric type for '' @ option))"

definition validateColorscheme :: "Lib \<Rightarrow> string \<Rightarrow> setting \<Rightarrow> string option" where
  "validateColorscheme lib option val =
     (case val of
        VString colorscheme \<Rightarrow>
          if \<not> ColorschemeExists lib colorscheme
          then Some (colorscheme @ '' is not a valid colorscheme'') else None
      | _ \<Rightarrow> Some ''Expected string type for colorscheme'')"

definition validateLineEnding :: "string \<Rightarrow> setting \<Rightarrow> string option" where
  "validateLineEnding option val =
     (case val of
        VString endingType \<Rightarrow>
          if endingType \<noteq> ''unix'' \<and> endingType \<noteq> ''dos''
          then Some (''File format must be either '' @ [CHR 0x27] @ ''unix'' @ [CHR 0x27] @ '' or ''
                       @ [CHR 0x27] @ ''dos'' @ [CHR 0x27])
          else None
      | _ \<Rightarrow> Some ''Expected string type for file format'')"

definition optionIsValid :: "Lib \<Rightarrow> string \<Rightarrow> setting \<Rightarrow> string option" where
  "optionIsValid lib option val =
     (if option = ''tabsize'' then validatePositiveValue option val
      else if option = ''scrollmargin'' then validateNonNegativeValue option val
      else if option = ''scrollspeed'' then validateNonNegativeValue option val
      else if option = ''colorscheme'' then validateColorscheme lib option val
      else if option = ''colorcolumn'' then validateNonNegativeValue option val
      else if option = ''fileformat'' then validateLineEnding option val
      else None)"

definition addEffects :: "effect list \<Rightarrow> Config \<Rightarrow> Config" where
  "addEffects es c = c\<lparr>effects := effects c @ es\<rparr>"

text \<open>
  \<^verbatim>\<open>SetLocalOption\<close> on the view with index \<open>i\<close>. It returns a panic, or the error
  (\<open>None\<close> for \<^verbatim>\<open>nil\<close>) and the new state.
\<close>

definition SetLocalOption :: "Lib \<Rightarrow> string \<Rightarrow> string \<Rightarrow> nat \<Rightarrow> Config \<Rightarrow> error + string option \<times> Config" where
  "SetLocalOption lib option val i c =
     (if \<not> i < length (localSettings c) then Inl IndexOutOfRange
      else
     (case (localSettings c ! i) option of
        None \<Rightarrow> Inr (Some ''Invalid option'', c)
      | Some current \<Rightarrow>
     (case nativeValue lib current val of
        Inl err \<Rightarrow> Inr (Some err, c)
      | Inr native \<Rightarrow>
     (case optionIsValid lib option native of
        Some err \<Rightarrow> Inr (Some err, c)
      | None \<Rightarrow>
     (case (if option = ''fastdirty''
            then (case asBool option (Some native) of
                    Inl e \<Rightarrow> Inl e
                  | Inr b \<Rightarrow> Inr (addEffects [if \<not> b then HashBuffers else RefreshModified] c))
            else Inr c) of
        Inl e \<Rightarrow> Inl e
      | Inr c1 \<Rightarrow>
     (let c2 = c1\<lparr>localSettings := (localSettings c1)[i := (localSettings c1 ! i)(option \<mapsto> native)]\<rparr>;
          c3 = (if option = ''statusline'' then addEffects [ToggleStatusLine i] c2 else c2);
          c4 = (if option = ''filetype'' then addEffects [InitColorscheme, UpdateRules i] c3 else c3);
          c5 = (if option = ''fileformat'' then addEffects [MarkModified i] c4 else c4)
      in if option = ''syntax''
         then (case asBool option (Some native) of
                 Inl e \<Rightarrow> Inl e
               | Inr b \<Rightarrow>
                   Inr (None, addEffects [if \<not> b then ClearMatches i else HighlightStates i] c5))
         else Inr (None, c5)))))))"

text \<open>The loop of SetOption over the views of all tabs; the errors are dropped.\<close>

fun setLocalAll :: "Lib \<Rightarrow> string \<Rightarrow> string \<Rightarrow> nat list \<Rightarrow> Config \<Rightarrow> error + Config" where
  "setLocalAll lib option val [] c = Inr c"
| "setLocalAll lib option val (i # is) c =
     (case SetLocalOption lib option val i c of
        Inl e \<Rightarrow> Inl e
      | Inr (err, c1) \<Rightarrow> setLocalAll lib option val is c1)"

text \<open>
  \<^verbatim>\<open>SetOption\<close>. An option that is not global but is set in the current buffer goes to
  \<^verbatim>\<open>SetLocalOption\<close>, whose error is not returned.
\<close>

definition SetOption :: "Lib \<Rightarrow> string \<Rightarrow> string \<Rightarrow> Config \<Rightarrow> error + string option \<times> Config" where
  "SetOption lib option val c =
     (case globalSettings c option of
        None \<Rightarrow>
          if \<not> curViewIndex c < length (localSettings c) then Inl IndexOutOfRange
          else (case (localSettings c ! curViewIndex c) option of
                  None \<Rightarrow> Inr (Some ''Invalid option'', c)
                | Some current \<Rightarrow>
                    (case SetLocalOption lib option val (curViewIndex c) c of
                       Inl e \<Rightarrow> Inl e
                     | Inr (err, c1) \<Rightarrow> Inr (None, c1)))
      | Some current \<Rightarrow>
     (case nativeValue lib current val of
        Inl err \<Rightarrow> Inr (Some err, c)
      | Inr native \<Rightarrow>
     (case optionIsValid lib option native of
        Some err \<Rightarrow> Inr (Some err, c)
      | None \<Rightarrow>
     (let c1 = c\<lparr>globalSettings := (globalSettings c)(option \<mapsto> native)\<rparr>;
          c2 = (if option = ''colorscheme''
                then addEffects (InitColorscheme # map UpdateRules [0..<length (localSettings c1)]) c1
                else c1);
          c3 = (if option = ''infobar'' \<or> option = ''keymenu''
                then addEffects [ResizeAllTabs] c2 else c2)
      in (case (if option = ''mouse''
                then (case asBool option (Some native) of
                        Inl e \<Rightarrow> Inl e
                      | Inr b \<Rightarrow> Inr (addEffects [if \<not> b then DisableMouse else EnableMouse] c3))
                else Inr c3) of
            Inl e \<Rightarrow> Inl e
          | Inr c4 \<Rightarrow>
              if localSettings c4 \<noteq> [] then
                (if \<not> curViewIndex c4 < length (localSettings c4) then Inl IndexOutOfRange
                 else if (localSettings c4 ! curViewIndex c4) option \<noteq> None then
                   (case setLocalAll lib option val [0..<length (localSettings c4)] c4 of
                      Inl e \<Rightarrow> Inl e
                    | Inr c5 \<Rightarrow> Inr (None, c5))
                 else Inr (None, c4))
              else Inr (None, c4))))))"

text \<open>
  \<^verbatim>\<open>SetOptionAndSettings\<close>: an error of SetOption goes to the messenger and ends the
  function; otherwise the settings are written.
\<close>

definition SetOptionAndSettings :: "Lib \<Rightarrow> string \<Rightarrow> string \<Rightarrow> Config \<Rightarrow> error + Config" where
  "SetOptionAndSettings lib option val c =
     (case SetOption lib option val c of
        Inl e \<Rightarrow> Inl e
      | Inr (Some err, c1) \<Rightarrow> Inr (c1\<lparr>messengerErrors := messengerErrors c1 @ [err]\<rparr>)
      | Inr (None, c1) \<Rightarrow>
          (let (err, c2) = WriteSettings lib c1
           in case err of
                None \<Rightarrow> Inr c2
              | Some e \<Rightarrow>
                  Inr (c2\<lparr>messengerErrors :=
                            messengerErrors c2 @ [''Error writing to settings.json: '' @ e]\<rparr>)))"

subsection \<open>Default settings and sample views\<close>

text \<open>\<^verbatim>\<open>DefaultLocalSettings\<close> of the settings file.\<close>

definition DefaultLocalSettings :: settings where
  "DefaultLocalSettings = map_of
     [(''autoindent'', VBool True),
      (''autosave'', VBool False),
      (''basename'', VBool False),
      (''colorcolumn'', VFloat64 0),
      (''cursorline'', VBool True),
      (''eofnewline'', VBool False),
      (''fastdirty'', VBool True),
      (''fileformat'', VString ''unix''),
      (''filetype'', VString ''Unknown''),
      (''hidehelp'', VBool False),
      (''ignorecase'', VBool False),
      (''indentchar'', VString '' ''),
      (''keepautoindent'', VBool False),
      (''matchbrace'', VBool False),
      (''matchbraceleft'', VBool False),
      (''rmtrailingws'', VBool False),
      (''ruler'', VBool True),
      (''savecursor'', VBool False),
      (''saveundo'', VBool False),
      (''scrollbar'', VBool False),
      (''scrollmargin'', VFloat64 3),
      (''scrollspeed'', VFloat64 2),
      (''softwrap'', VBool False),
      (''smartpaste'', VBool True),
      (''splitbottom'', VBool True),
      (''splitright'', VBool True),
      (''statusline'', VBool True),
      (''syntax'', VBool True),
      (''tabmovement'', VBool False),
      (''tabsize'', VFloat64 4),
      (''tabstospaces'', VBool False),
      (''useprimary'', VBool True),
      (''autocomplete'', VBool False)]"

text \<open>
  Sample values for the closed statements below: a cursor without a selection, a buffer
  with one cursor, the primary one, and a view of it with the scroll offsets at zero.
\<close>

definition cursorAt :: "int \<Rightarrow> int \<Rightarrow> Cursor" where
  "cursorAt cx cy =
     \<lparr>X = cx, Y = cy, LastVisualX = cx, CurSelection = ((0, 0), (0, 0)), Num = 0\<rparr>"

definition bufferOf :: "int \<Rightarrow> (int \<Rightarrow> string) \<Rightarrow> settings \<Rightarrow> Cursor \<Rightarrow> Buffer" where
  "bufferOf n ln st c =
     \<lparr>NumLines = n, Line = ln, Settings = st, cursors = [Some 0], curCursor = 0,
      store = (\<lambda>a. c)\<rparr>"

definition viewOf :: "Buffer \<Rightarrow> int \<Rightarrow> int \<Rightarrow> View" where
  "viewOf b w h =
     \<lparr>Cursor = 0, Topline = 0, leftCol = 0, Type = vtDefault, Width = w, Height = h,
      view_x = 0, view_y = 0, lineNumOffset = 0, messages = [], ViewNum = 0, Buf = b,
      mouseReleased = True, isOverwriteMode = False, doubleClick = False,
      tripleClick = False, freshClip = False\<rparr>"

text \<open>The cursor's column as its visual column: \<^verbatim>\<open>GetVisualX\<close> on a line without tabs.\<close>

definition plainVisualX :: "Buffer \<Rightarrow> Cursor \<Rightarrow> int" where
  "plainVisualX b c = X c"

text \<open>A buffer of 100 short lines in a pane 80 wide and 20 high, the cursor on line 99.\<close>

definition view100 :: View where
  "view100 = viewOf (bufferOf 100 (\<lambda>n. ''x'') DefaultLocalSettings (cursorAt 0 99)) 80 20"

text \<open>
  A softwrap pane 5 wide and 10 high over 100 lines, of which lines 11 to 20 are ten
  characters long and take two visual rows each; the cursor is on line 20.
\<close>

definition wrapView :: View where
  "wrapView =
     viewOf (bufferOf 100 (\<lambda>n. if 11 \<le> n \<and> n \<le> 20 then ''aaaaaaaaaa'' else ''x'')
               (DefaultLocalSettings(''softwrap'' \<mapsto> VBool True)) (cursorAt 0 20)) 5 10"

subsection \<open>Sample collaborators\<close>

text \<open>
  A plain Buffer for the closed statements about HandleEvent: text on single lines, where
  an insertion moves every cursor at or behind it on that line, and deleting a selection
  puts its cursor at the start of the selection.
\<close>

definition plainInsert :: "Loc \<Rightarrow> string \<Rightarrow> Buffer \<Rightarrow> Buffer" where
  "plainInsert loc txt b =
     (let lx = fst loc; ly = snd loc; l = Line b ly
      in b\<lparr>Line := (Line b)(ly := take (nat lx) l @ txt @ drop (nat lx) l),
           store := (\<lambda>a. let c = store b a
                          in if Y c = ly \<and> X c \<ge> lx then c\<lparr>X := X c + int (length txt)\<rparr> else c)\<rparr>)"

definition plainRemove :: "Loc \<Rightarrow> Loc \<Rightarrow> Buffer \<Rightarrow> Buffer" where
  "plainRemove start end b =
     (let sx = fst start; ex = fst end; ly = snd start; l = Line b ly
      in b\<lparr>Line := (Line b)(ly := take (nat sx) l @ drop (nat ex) l),
           store := (\<lambda>a. let c = store b a
                          in if Y c = ly \<and> X c \<ge> ex then c\<lparr>X := X c - (ex - sx)\<rparr> else c)\<rparr>)"

definition plainHasSelection :: "Cursor \<Rightarrow> bool" where
  "plainHasSelection c = (fst (CurSelection c) \<noteq> snd (CurSelection c))"

definition plainDeleteSelection :: "nat \<Rightarrow> Buffer \<Rightarrow> Buffer" where
  "plainDeleteSelection a b =
     (let start = fst (CurSelection (store b a)); end = snd (CurSelection (store b a));
          b1 = plainRemove start end b
      in b1\<lparr>store := (store b1)(a := (store b1 a)\<lparr>X := fst start, Y := snd start\<rparr>)\<rparr>)"

definition plainResetSelection :: "nat \<Rightarrow> Buffer \<Rightarrow> Buffer" where
  "plainResetSelection a b =
     b\<lparr>store := (store b)(a := (store b a)\<lparr>CurSelection := ((0, 0), (0, 0))\<rparr>)\<rparr>"

definition plainSetSelectionEnd :: "Loc \<Rightarrow> nat \<Rightarrow> Buffer \<Rightarrow> Buffer" where
  "plainSetSelectionEnd loc a b =
     b\<lparr>store := (store b)(a := (store b a)\<lparr>CurSelection := (fst (CurSelection (store b a)), loc)\<rparr>)\<rparr>"

text \<open>
  Modelled from the spec: \<^verbatim>\<open>Buffer.MergeCursors\<close>, whose code is in another file of
  the repository. "Duplicate/overlapping cursors collapse to one": of the cursors at one
  location the first stays.
\<close>

fun collapse :: "(nat \<Rightarrow> Cursor) \<Rightarrow> nat option list \<Rightarrow> Loc list \<Rightarrow> nat option list" where
  "collapse st [] seen = []"
| "collapse st (None # cs) seen = collapse st cs seen"
| "collapse st (Some p # cs) seen =
     (if (X (st p), Y (st p)) \<in> set seen then collapse st cs seen
      else Some p # collapse st cs ((X (st p), Y (st p)) # seen))"

definition specMergeCursors :: "Buffer \<Rightarrow> Buffer" where
  "specMergeCursors b = b\<lparr>cursors := collapse (store b) (cursors b) []\<rparr>"

text \<open>The locations of the cursors of a buffer, in the order of the slice.\<close>

definition cursorLocs :: "Buffer \<Rightarrow> Loc option list" where
  "cursorLocs b = map (map_option (\<lambda>a. (X (store b a), Y (store b a)))) (cursors b)"

definition space :: char where
  "space = CHR 0x20"

text \<open>
  An environment without bindings and plugins, with a completer that stays out of the way,
  over the plain buffer.
\<close>

definition plainEnv :: Env where
  "plainEnv =
     \<lparr>bindings = [], mouseBindings = [],
      GetVisualX = plainVisualX,
      GetCharPosInLine = (\<lambda>b c line vx. vx),
      HasSelection = plainHasSelection,
      DeleteSelection = plainDeleteSelection,
      ResetSelection = plainResetSelection,
      SetSelectionEnd = plainSetSelectionEnd,
      CopySelection = (\<lambda>target a b. b),
      Insert = plainInsert,
      Replace = (\<lambda>start end txt b. plainInsert start txt (plainRemove start end b)),
      CheckModTime = (\<lambda>b. b),
      MergeCursors = specMergeCursors,
      termHandleEvent = (\<lambda>e a w. w),
      Quit = (\<lambda>a w. w),
      eventType = (\<lambda>e. ''*tcell.Event''),
      eventEscSeq = (\<lambda>e. []),
      CompleterHandleEvent = (\<lambda>k a w. (False, w)),
      CompleterProcess = (\<lambda>rn a w. w),
      DeactivateIfOutOfBounds = (\<lambda>a w. w),
      onRune = (\<lambda>rn a w. w),
      PreActionCall = (\<lambda>name a w. (True, w)),
      PostActionCall = (\<lambda>name a w. w),
      GetLeadingWhitespace = takeWhile (\<lambda>c. c = space \<or> c = tab)\<rparr>"

text \<open>
  One writable view on the line \<^verbatim>\<open>abc\<close> with two cursors at different locations: the
  primary one at the end of the line with the whole line selected, the other at the start
  of the line.
\<close>

definition twoCursorBuffer :: Buffer where
  "twoCursorBuffer =
     \<lparr>NumLines = 1,
      Line = (\<lambda>n. if n = 0 then ''abc'' else []),
      Settings = DefaultLocalSettings,
      cursors = [Some 0, Some 1],
      curCursor = 0,
      store = (\<lambda>a. if a = 0
                    then \<lparr>X = 3, Y = 0, LastVisualX = 3, CurSelection = ((0, 0), (3, 0)), Num = 0\<rparr>
                    else \<lparr>X = 0, Y = 0, LastVisualX = 0, CurSelection = ((0, 0), (0, 0)), Num = 1\<rparr>)\<rparr>"

definition twoCursorWorld :: World where
  "twoCursorWorld =
     \<lparr>views = (\<lambda>a. viewOf twoCursorBuffer 80 20), curView = 0, recordingMacro = False,
      curMacro = []\<rparr>"

text \<open>
  Handlers that write down what the main loop calls, and an editor with one view under a
  tab bar in row 0; the tab bar takes a left click in its row.
\<close>

datatype obs =
    Redraw
  | Handled int Event
  | Searched Event
  | TabSwitched Event
  | Resized
  | JobRan nat
  | Autosaved
  | TermClosed int
  | MessageCopied

definition logObs :: "obs \<Rightarrow> obs list Editor \<Rightarrow> obs list Editor" where
  "logObs ob s = s\<lparr>edRest := edRest s @ [ob]\<rparr>"

definition tracing :: "obs list Handlers" where
  "tracing =
     \<lparr>RedrawAll = logObs Redraw,
      jobFunction = (\<lambda>j. logObs (JobRan j)),
      autosaveCurView = logObs Autosaved,
      CloseTerminal = (\<lambda>n. logObs (TermClosed n)),
      ResizeTabs = logObs Resized,
      copyMessage = logObs MessageCopied,
      viewHandleEvent = (\<lambda>n e. logObs (Handled n e)),
      TabbarHandleMouseEvent =
        (\<lambda>e s. case e of
                  EventMouse button mods px py \<Rightarrow>
                    if button = Button1 \<and> py = 0 then (True, logObs (TabSwitched e) s) else (False, s)
                | _ \<Rightarrow> (False, s)),
      HandleSearchEvent = (\<lambda>e. logObs (Searched e))\<rparr>"

definition quietTabbar :: "obs list Handlers" where
  "quietTabbar = tracing\<lparr>TabbarHandleMouseEvent := (\<lambda>e s. (False, s))\<rparr>"

definition oneViewEditor :: "obs list Editor" where
  "oneViewEditor =
     \<lparr>edViews = [(viewOf (bufferOf 1 (\<lambda>n. []) DefaultLocalSettings (cursorAt 0 0)) 80 22)\<lparr>view_y := 1\<rparr>],
      edCurView = 0, edSearching = False, edMessage = [], edInfobar = Some (VBool True),
      edScreenH = 24, edRest = []\<rparr>"

definition keyA :: Event where
  "keyA = EventKey KeyRune (CHR ''a'') 0"

definition tabClick :: Event where
  "tabClick = EventMouse Button1 0 5 0"

text \<open>
  Library functions for the closed statements about the settings: a reader that accepts
  the empty object, a writer, \<^verbatim>\<open>ParseBool\<close> with \<^verbatim>\<open>on\<close> and \<^verbatim>\<open>off\<close>, and decimal
  numbers.
\<close>

definition digitOf :: "char \<Rightarrow> int option" where
  "digitOf c =
     (if (48::nat) \<le> of_char c \<and> of_char c \<le> (57::nat) then Some (int (of_char c) - 48) else None)"

fun decimal :: "string \<Rightarrow> int \<Rightarrow> int option" where
  "decimal [] acc = Some acc"
| "decimal (c # cs) acc = (case digitOf c of None \<Rightarrow> None | Some d \<Rightarrow> decimal cs (10 * acc + d))"

definition sampleAtoi :: "string \<Rightarrow> int option" where
  "sampleAtoi s =
     (case s of
        [] \<Rightarrow> None
      | c # cs \<Rightarrow>
          if c = CHR ''-'' then (if cs = [] then None else map_option uminus (decimal cs 0))
          else if c = CHR ''+'' then (if cs = [] then None else decimal cs 0)
          else decimal s 0)"

definition sampleParseBool :: "string \<Rightarrow> bool option" where
  "sampleParseBool s =
     (if s = ''on'' \<or> s = ''true'' then Some True
      else if s = ''off'' \<or> s = ''false'' then Some False
      else None)"

definition sampleLib :: Lib where
  "sampleLib =
     \<lparr>Unmarshal = (\<lambda>s. if s = ''{}'' then Some [] else None),
      MarshalIndent = (\<lambda>m. ''{}''),
      ParseBool = sampleParseBool,
      Atoi = sampleAtoi,
      ColorschemeExists = (\<lambda>name. name = ''default'')\<rparr>"

text \<open>
  A running editor with the default settings, one view and an empty settings object on
  disk; the same with a local option \<^verbatim>\<open>linter\<close> that is not a global one; and the same
  with a settings file that has been damaged since it was read.
\<close>

definition startConfig :: Config where
  "startConfig =
     \<lparr>globalSettings = DefaultGlobalSettings, invalidSettings = False, configDir = True,
      settingsFile = Content ''{}'', localSettings = [DefaultLocalSettings], curViewIndex = 0,
      termMessages = [], messengerErrors = [], effects = []\<rparr>"

definition linterConfig :: Config where
  "linterConfig = startConfig\<lparr>localSettings := [DefaultLocalSettings(''linter'' \<mapsto> VBool True)]\<rparr>"

definition damagedConfig :: Config where
  "damagedConfig = startConfig\<lparr>settingsFile := Content ''{''\<rparr>"


text \<open>A view with one gutter message of a linter on line index 4.\<close>

definition lintView :: View where
  "lintView = (viewOf (bufferOf 10 (\<lambda>n. []) DefaultLocalSettings (cursorAt 0 0)) 80 20)
     \<lparr>messages := [(''lint'', [\<lparr>lineNum = 4, msg = ''unused variable'', kind = 1\<rparr>])]\<rparr>"






section \<open>Scrolling stays within the buffer\<close>

lemma wrap64_id: "int64 i \<Longrightarrow> wrap64 i = i"
  by (simp add: int64_def wrap64_def)

lemma wrap64_over:
  assumes "int64 a" and "int64 b" and "0 \<le> a" and "0 \<le> b" and "2 ^ 63 \<le> a + b"
  shows "wrap64 (a + b) = a + b - 2 ^ 64"
proof -
  have "(a + b + 2 ^ 63) mod 2 ^ 64 = (a + b + 2 ^ 63 - 2 ^ 64) mod (2 ^ 64 :: int)"
    by (metis mod_diff_right_eq mod_self diff_zero)
  also have "\<dots> = a + b + 2 ^ 63 - 2 ^ 64"
    using assms by (intro mod_pos_pos_trivial) (simp_all add: int64_def)
  finally show ?thesis by (simp add: wrap64_def)
qed

text \<open>
  Claim C9. For a view with \<open>Topline \<ge> 0\<close> and for \<open>n \<ge> 0\<close>: ScrollUp never makes
  Topline negative; it subtracts n when \<open>Topline - n \<ge> 0\<close>, else it decrements by one when
  \<open>Topline > 0\<close>, else it leaves Topline as it is. ScrollDown never makes Topline exceed
  NumLines; it adds n when \<open>Topline + n \<le> NumLines\<close>, else it increments by one only when
  \<open>Topline < NumLines - 1\<close>, else it leaves Topline as it is. The numbers are Go ints, and
  NumLines counts lines. The sum \<open>Topline + n\<close> is Go's, \<open>wrap64 (Topline + n)\<close>: it is the
  sum of the integers as long as that is below \<open>2^63\<close>, and \<open>2^64\<close> less from there on.
\<close>

theorem C9_scroll_bounds:
  assumes "int64 (Topline v)" and "int64 n" and "int64 (NumLines (Buf v))"
    and "0 \<le> NumLines (Buf v)" and "0 \<le> Topline v" and "0 \<le> n"
  shows "0 \<le> Topline (ScrollUp n v)
    \<and> Topline (ScrollUp n v) =
        (if 0 \<le> Topline v - n then Topline v - n
         else if 0 < Topline v then Topline v - 1 else Topline v)
    \<and> (Topline (ScrollDown n v) = Topline v \<or> Topline (ScrollDown n v) \<le> NumLines (Buf v))
    \<and> Topline (ScrollDown n v) =
        (if wrap64 (Topline v + n) \<le> NumLines (Buf v) then wrap64 (Topline v + n)
         else if Topline v < NumLines (Buf v) - 1 then Topline v + 1 else Topline v)
    \<and> (Topline v + n < 2 ^ 63 \<longrightarrow> wrap64 (Topline v + n) = Topline v + n)
    \<and> (2 ^ 63 \<le> Topline v + n \<longrightarrow> wrap64 (Topline v + n) = Topline v + n - 2 ^ 64)"
proof -
  have sub: "wrap64 (Topline v - n) = Topline v - n"
    using assms by (intro wrap64_id) (simp add: int64_def)
  have dec: "0 < Topline v \<Longrightarrow> wrap64 (Topline v - 1) = Topline v - 1"
    using assms by (intro wrap64_id) (simp add: int64_def)
  have nl: "wrap64 (NumLines (Buf v) - 1) = NumLines (Buf v) - 1"
    using assms by (intro wrap64_id) (simp add: int64_def)
  have inc: "Topline v < NumLines (Buf v) - 1 \<Longrightarrow> wrap64 (Topline v + 1) = Topline v + 1"
    using assms by (intro wrap64_id) (simp add: int64_def)
  have up: "Topline (ScrollUp n v) =
        (if 0 \<le> Topline v - n then Topline v - n
         else if 0 < Topline v then Topline v - 1 else Topline v)"
    using sub dec by (simp add: ScrollUp_def)
  have down: "Topline (ScrollDown n v) =
        (if wrap64 (Topline v + n) \<le> NumLines (Buf v) then wrap64 (Topline v + n)
         else if Topline v < NumLines (Buf v) - 1 then Topline v + 1 else Topline v)"
    using nl inc by (simp add: ScrollDown_def)
  have nonneg: "0 \<le> Topline (ScrollUp n v)"
    using up assms by simp
  have bound: "Topline (ScrollDown n v) = Topline v \<or> Topline (ScrollDown n v) \<le> NumLines (Buf v)"
    unfolding down by simp
  have small: "Topline v + n < 2 ^ 63 \<longrightarrow> wrap64 (Topline v + n) = Topline v + n"
  proof
    assume "Topline v + n < 2 ^ 63"
    then show "wrap64 (Topline v + n) = Topline v + n"
      using assms by (intro wrap64_id) (simp add: int64_def)
  qed
  have big: "2 ^ 63 \<le> Topline v + n \<longrightarrow> wrap64 (Topline v + n) = Topline v + n - 2 ^ 64"
  proof
    assume "2 ^ 63 \<le> Topline v + n"
    then show "wrap64 (Topline v + n) = Topline v + n - 2 ^ 64"
      using assms by (intro wrap64_over) simp_all
  qed
  show ?thesis
    using nonneg up bound down small big by (intro conjI)
qed

text \<open>
  The hypotheses of C9 hold for the sample view of 100 lines scrolled to line 3: scrolling
  up by 5 moves one line up, scrolling down by 5 moves five lines down.
\<close>

theorem C9_scroll_bounds_witness:
  "int64 (Topline (view100\<lparr>Topline := 3\<rparr>)) \<and> int64 5
   \<and> int64 (NumLines (Buf (view100\<lparr>Topline := 3\<rparr>)))
   \<and> Topline (ScrollUp 5 (view100\<lparr>Topline := 3\<rparr>)) = 2
   \<and> Topline (ScrollDown 5 (view100\<lparr>Topline := 3\<rparr>)) = 8"
proof -
  have h1: "int64 (Topline (view100\<lparr>Topline := 3\<rparr>))" by (simp add: int64_def)
  have h2: "int64 5" by (simp add: int64_def)
  have h3: "int64 (NumLines (Buf (view100\<lparr>Topline := 3\<rparr>)))"
    by (simp add: int64_def view100_def viewOf_def bufferOf_def)
  have h4: "0 \<le> NumLines (Buf (view100\<lparr>Topline := 3\<rparr>))"
    by (simp add: view100_def viewOf_def bufferOf_def)
  have h5: "0 \<le> Topline (view100\<lparr>Topline := 3\<rparr>)" by simp
  have h6: "(0::int) \<le> 5" by simp
  have nl: "NumLines (Buf view100) = 100"
    by (simp add: view100_def viewOf_def bufferOf_def)
  show ?thesis
    using h1 h2 h3 C9_scroll_bounds [OF h1 h2 h3 h4 h5 h6] by (simp add: nl)
qed

section \<open>Relocate at the end of the buffer\<close>

lemma Bottomline_softwrap_ok:
  "Bottomline v = Inr b \<Longrightarrow> \<exists>sw. asBool ''softwrap'' (Settings (Buf v) ''softwrap'') = Inr sw"
  by (cases "asBool ''softwrap'' (Settings (Buf v) ''softwrap'')") (simp_all add: Bottomline_def)

text \<open>
  Claim C3. For a view whose buffer has 100 lines, whose visible height (Bottomline minus
  Topline) is 20 and whose scrollmargin is 3, with the cursor on line 99, Relocate sets
  Topline to 80, whatever Topline was and whether or not the lines are wrapped.
\<close>

theorem C3_relocate_scenario:
  assumes "Bottomline v = Inr (Topline v + 20)"
    and "NumLines (Buf v) = 100"
    and "Settings (Buf v) ''scrollmargin'' = Some (VFloat64 3)"
    and "Y (theCursor v) = 99"
  shows "\<exists>v'. Relocate gvx v = Inr (True, v') \<and> Topline v' = 80"
proof -
  obtain sw where sw: "asBool ''softwrap'' (Settings (Buf v) ''softwrap'') = Inr sw"
    using Bottomline_softwrap_ok [OF assms(1)] by blast
  show ?thesis
    using assms sw
    by (cases sw)
      (simp_all add: Relocate_def relocateLines_def relocateColumns_def theCursor_def Let_def
        split: prod.splits)
qed

text \<open>The scenario itself: 100 lines, a pane 20 high, the default scrollmargin 3.\<close>

theorem C3_relocate_scenario_witness:
  "Bottomline view100 = Inr (Topline view100 + 20) \<and> NumLines (Buf view100) = 100
   \<and> Settings (Buf view100) ''scrollmargin'' = Some (VFloat64 3) \<and> Y (theCursor view100) = 99
   \<and> (\<exists>v'. Relocate plainVisualX view100 = Inr (True, v') \<and> Topline v' = 80)"
proof -
  have h1: "Bottomline view100 = Inr (Topline view100 + 20)"
    by (simp add: Bottomline_def view100_def viewOf_def bufferOf_def DefaultLocalSettings_def)
  have h2: "NumLines (Buf view100) = 100"
    by (simp add: view100_def viewOf_def bufferOf_def)
  have h3: "Settings (Buf view100) ''scrollmargin'' = Some (VFloat64 3)"
    by (simp add: view100_def viewOf_def bufferOf_def DefaultLocalSettings_def)
  have h4: "Y (theCursor view100) = 99"
    by (simp add: view100_def viewOf_def bufferOf_def theCursor_def cursorAt_def)
  show ?thesis
    using h1 h2 h3 h4 C3_relocate_scenario [OF h1 h2 h3 h4] by blast
qed


section \<open>Relocate twice in a row\<close>

lemma relocateLines_Topline:
  "Topline (snd (relocateLines h m v)) =
     (let cy = Y (theCursor v);
          T1 = (if cy < Topline v + m \<and> cy > m - 1 then cy - m
                else if cy < Topline v then cy else Topline v)
      in if cy > T1 + h - 1 - m \<and> cy < NumLines (Buf v) - m then cy - h + 1 + m
         else if cy \<ge> NumLines (Buf v) - m \<and> cy \<ge> h then NumLines (Buf v) - h
         else T1)"
  by (simp add: relocateLines_def Let_def)

lemma relocateLines_snd:
  "snd (relocateLines h m v) = v\<lparr>Topline := Topline (snd (relocateLines h m v))\<rparr>"
  by (simp add: relocateLines_def Let_def)

lemma relocateLines_frame: "\<exists>r T. relocateLines h m v = (r, v\<lparr>Topline := T\<rparr>)"
  by (metis relocateLines_snd prod.collapse)

text \<open>
  With a scroll margin that is not negative, the first half of Relocate changes nothing
  when it runs a second time with the same height.
\<close>

lemma relocateLines_idem:
  assumes "0 \<le> m"
  shows "snd (relocateLines h m (snd (relocateLines h m v))) = snd (relocateLines h m v)"
proof -
  let ?v1 = "snd (relocateLines h m v)"
  have eq: "?v1 = v\<lparr>Topline := Topline ?v1\<rparr>" by (rule relocateLines_snd)
  have c: "theCursor ?v1 = theCursor v" and n: "NumLines (Buf ?v1) = NumLines (Buf v)"
    by (subst eq, simp add: theCursor_def)+
  have "Topline (snd (relocateLines h m ?v1)) = Topline ?v1"
    unfolding relocateLines_Topline [of h m ?v1] c n
    unfolding relocateLines_Topline [of h m v] Let_def
    using assms by (simp split: if_splits)
  moreover have "snd (relocateLines h m ?v1) = ?v1\<lparr>Topline := Topline (snd (relocateLines h m ?v1))\<rparr>"
    by (rule relocateLines_snd)
  ultimately show ?thesis by simp
qed

lemma relocateColumns_leftCol:
  "leftCol (snd (relocateColumns cx (r, v))) =
     (let L1 = (if cx < leftCol v then cx else leftCol v)
      in if cx + lineNumOffset v + 1 > L1 + Width v then cx - Width v + lineNumOffset v + 1
         else L1)"
  by (simp add: relocateColumns_def Let_def)

lemma relocateColumns_snd:
  "snd (relocateColumns cx (r, v)) = v\<lparr>leftCol := leftCol (snd (relocateColumns cx (r, v)))\<rparr>"
  by (simp add: relocateColumns_def Let_def)

lemma relocateColumns_idem:
  "snd (relocateColumns cx (r', snd (relocateColumns cx (r, v)))) = snd (relocateColumns cx (r, v))"
proof -
  let ?v1 = "snd (relocateColumns cx (r, v))"
  have eq: "?v1 = v\<lparr>leftCol := leftCol ?v1\<rparr>" by (rule relocateColumns_snd)
  have w: "Width ?v1 = Width v" and l: "lineNumOffset ?v1 = lineNumOffset v"
    by (subst eq, simp)+
  have "leftCol (snd (relocateColumns cx (r', ?v1))) = leftCol ?v1"
    unfolding relocateColumns_leftCol [of cx r' ?v1] w l
    unfolding relocateColumns_leftCol [of cx r v] Let_def
    by (simp split: if_splits)
  moreover have "snd (relocateColumns cx (r', ?v1)) =
      ?v1\<lparr>leftCol := leftCol (snd (relocateColumns cx (r', ?v1)))\<rparr>"
    by (rule relocateColumns_snd)
  ultimately show ?thesis by simp
qed

lemma Relocate_nowrap:
  assumes "Settings (Buf v) ''softwrap'' = Some (VBool False)"
    and "Settings (Buf v) ''scrollmargin'' = Some (VFloat64 m)"
  shows "Relocate gvx v =
     Inr (relocateColumns (gvx (Buf v) (theCursor v)) (relocateLines (Height v) m v))"
proof -
  obtain r2 v2 where rl: "relocateLines (Height v) m v = (r2, v2)" by (cases "relocateLines (Height v) m v")
  have "v2 = v\<lparr>Topline := Topline v2\<rparr>" using relocateLines_snd [of "Height v" m v] rl by simp
  then have "Buf v2 = Buf v" and "theCursor v2 = theCursor v"
    by (metis View.select_convs(12) View.surjective View.update_convs(2),
        metis View.select_convs(1,12) View.surjective View.update_convs(2) theCursor_def)
  then show ?thesis using assms rl by (simp add: Relocate_def Bottomline_def)
qed

text \<open>
  Without softwrap and with a scroll margin that is not negative, a second Relocate
  returns the view the first one returned.
\<close>

lemma Relocate_idempotent_nowrap:
  assumes sw: "Settings (Buf v) ''softwrap'' = Some (VBool False)"
    and sm: "Settings (Buf v) ''scrollmargin'' = Some (VFloat64 m)"
    and "0 \<le> m"
  shows "\<exists>r v'. Relocate gvx v = Inr (r, v') \<and> (\<exists>r'. Relocate gvx v' = Inr (r', v'))"
proof -
  let ?cx = "gvx (Buf v) (theCursor v)"
  obtain r2 v2 where rl: "relocateLines (Height v) m v = (r2, v2)"
    by (cases "relocateLines (Height v) m v")
  obtain r4 v4 where rc: "relocateColumns ?cx (r2, v2) = (r4, v4)"
    by (cases "relocateColumns ?cx (r2, v2)")
  have e2: "v2 = v\<lparr>Topline := Topline v2\<rparr>"
    using relocateLines_snd [of "Height v" m v] rl by simp
  have e4: "v4 = v2\<lparr>leftCol := leftCol v4\<rparr>"
    using relocateColumns_snd [of ?cx r2 v2] rc by simp
  have first: "Relocate gvx v = Inr (r4, v4)"
    using Relocate_nowrap [OF sw sm] rl rc by simp
  have b4: "Buf v4 = Buf v" and c4: "theCursor v4 = theCursor v" and h4: "Height v4 = Height v"
    by (subst e4, subst e2, simp add: theCursor_def)+
  have lines: "relocateLines (Height v) m v4 = (fst (relocateLines (Height v) m v4), v4)"
  proof -
    have "snd (relocateLines (Height v) m v2) = v2"
      using relocateLines_idem [OF assms(3), of "Height v" v] rl by simp
    then have T: "Topline (snd (relocateLines (Height v) m v2)) = Topline v2" by simp
    have same: "Topline v4 = Topline v2" "theCursor v4 = theCursor v2" "Buf v4 = Buf v2"
      by (subst e4, simp add: theCursor_def)+
    have "Topline (snd (relocateLines (Height v) m v4)) = Topline (snd (relocateLines (Height v) m v2))"
      unfolding relocateLines_Topline by (simp only: same)
    then have "Topline (snd (relocateLines (Height v) m v4)) = Topline v4"
      using T same by simp
    then have "snd (relocateLines (Height v) m v4) = v4"
      using relocateLines_snd [of "Height v" m v4] by simp
    then show ?thesis by (metis prod.collapse)
  qed
  have cols: "snd (relocateColumns ?cx (r', v4)) = v4" for r'
    using relocateColumns_idem [of ?cx r' r2 v2] rc by simp
  have "Relocate gvx v4 =
     Inr (relocateColumns (gvx (Buf v4) (theCursor v4)) (relocateLines (Height v4) m v4))"
    using Relocate_nowrap [of v4 m gvx] sw sm b4 by simp
  then have "Relocate gvx v4 =
     Inr (relocateColumns ?cx (fst (relocateLines (Height v) m v4), v4))"
    using lines by (simp add: b4 c4 h4)
  then have "\<exists>r'. Relocate gvx v4 = Inr (r', v4)"
    using cols by (metis prod.collapse)
  then show ?thesis using first by blast
qed

text \<open>
  Claim C4 says that a second Relocate in a row leaves Topline and leftCol as the first one
  left them, for every view. Under softwrap it does not: in the sample softwrap pane, ten
  rows high, with the cursor on line 20 behind ten lines of two rows each, the first
  Relocate measures the height at Topline 0 as ten lines and moves Topline to 14; the
  second measures it at Topline 14 as five lines and moves Topline on to 19.
\<close>

theorem C4_relocate_twice:
  "Relocate plainVisualX wrapView = Inr (True, wrapView\<lparr>Topline := 14\<rparr>)
   \<and> Relocate plainVisualX (wrapView\<lparr>Topline := 14\<rparr>) = Inr (True, wrapView\<lparr>Topline := 19\<rparr>)"
  by (simp add: Relocate_def relocateLines_def relocateColumns_def Bottomline_def wrapView_def
      viewOf_def bufferOf_def cursorAt_def DefaultLocalSettings_def theCursor_def tab_def)


section \<open>The left column under softwrap\<close>

text \<open>The wrap simulation returns when the tab size is a number.\<close>

lemma wrapLine_ok:
  "Settings (Buf v) ''tabsize'' = Some (VFloat64 t) \<Longrightarrow> \<exists>p. wrapLine v l st = Inr p"
proof (induction l arbitrary: st)
  case Nil
  then show ?case by (cases st) simp
next
  case (Cons ch l)
  then show ?case by (cases st) (simp add: Let_def)
qed

lemma bottomLoop_ok:
  "Settings (Buf v) ''tabsize'' = Some (VFloat64 t) \<Longrightarrow> \<exists>n. bottomLoop v lineN sy k = Inr n"
proof (induction v lineN sy k rule: bottomLoop.induct)
  case (1 v lineN screenY numLines)
  show ?case
  proof (cases "lineN < Topline v + Height v")
    case False
    then show ?thesis by simp
  next
    case True
    obtain sx' sy' where w: "wrapLine v (Line (Buf v) lineN) (0, screenY) = Inr (sx', sy')"
      using wrapLine_ok [OF "1.prems"] by (metis surj_pair)
    show ?thesis
    proof (cases "sy' + 1 \<ge> Height v")
      case True
      with \<open>lineN < Topline v + Height v\<close> w show ?thesis by simp
    next
      case False
      then have "\<exists>n. bottomLoop v (lineN + 1) (sy' + 1) (numLines + 1) = Inr n"
        using "1.IH" [OF \<open>lineN < Topline v + Height v\<close> w refl _ "1.prems"] by simp
      with False \<open>lineN < Topline v + Height v\<close> w show ?thesis by simp
    qed
  qed
qed

lemma Bottomline_ok:
  assumes "Settings (Buf v) ''softwrap'' = Some (VBool sw)"
    and "Settings (Buf v) ''tabsize'' = Some (VFloat64 t)"
  shows "\<exists>b. Bottomline v = Inr b"
proof (cases sw)
  case False
  then show ?thesis using assms by (simp add: Bottomline_def)
next
  case True
  obtain n where "bottomLoop v (Topline v) 0 0 = Inr n"
    using bottomLoop_ok [OF assms(2)] by blast
  then show ?thesis using True assms by (simp add: Bottomline_def del: bottomLoop.simps)
qed

lemma leftCol_gutterWidth: "leftCol (gutterWidth v) = leftCol v"
  by (simp add: gutterWidth_def Let_def)

lemma Relocate_softwrap:
  assumes sw: "Settings (Buf v) ''softwrap'' = Some (VBool True)"
    and sm: "Settings (Buf v) ''scrollmargin'' = Some (VFloat64 m)"
    and ts: "Settings (Buf v) ''tabsize'' = Some (VFloat64 t)"
  shows "\<exists>r T. Relocate gvx v = Inr (r, v\<lparr>Topline := T\<rparr>)"
proof -
  obtain b where b: "Bottomline v = Inr b"
    using Bottomline_ok [OF sw ts] by blast
  obtain r T where rl: "relocateLines (b - Topline v) m v = (r, v\<lparr>Topline := T\<rparr>)"
    using relocateLines_frame by blast
  have "Relocate gvx v = Inr (r, v\<lparr>Topline := T\<rparr>)"
    using sw sm b rl by (simp add: Relocate_def)
  then show ?thesis by blast
qed

text \<open>
  Claim C5, for Relocate and for DisplayView apart. With softwrap on (and the scroll margin
  and the tab size numbers, as the code asserts), Relocate returns and leaves leftCol as it
  was: it never adjusts it. DisplayView of a view that is not a terminal sets leftCol to
  zero: it returns with \<open>leftCol = 0\<close>, unless the drawing itself panics. So leftCol is zero
  after DisplayView, and after Relocate when it was zero before.
\<close>

theorem C5_softwrap_leftCol:
  assumes sw: "Settings (Buf v) ''softwrap'' = Some (VBool True)"
    and sm: "Settings (Buf v) ''scrollmargin'' = Some (VFloat64 m)"
    and ts: "Settings (Buf v) ''tabsize'' = Some (VFloat64 t)"
  shows "(\<exists>r v'. Relocate gvx v = Inr (r, v') \<and> leftCol v' = leftCol v)
    \<and> (Type v \<noteq> vtTerm \<longrightarrow>
         (case DisplayView gvx display draw v of
            Inl e \<Rightarrow> \<exists>u. draw u = Inl e
          | Inr v' \<Rightarrow> leftCol v' = 0))"
proof -
  have rel: "\<exists>r v'. Relocate gvx v = Inr (r, v') \<and> leftCol v' = leftCol v"
  proof -
    obtain r T where "Relocate gvx v = Inr (r, v\<lparr>Topline := T\<rparr>)"
      using Relocate_softwrap [OF sw sm ts] by blast
    then show ?thesis by simp
  qed
  have key: "case (case (if Type u = vtLog \<or> Type u = vtRaw
                 then (case Relocate gvx u of Inl e \<Rightarrow> Inl e | Inr (ret, v') \<Rightarrow> Inr v')
                 else Inr u) of
              Inl e \<Rightarrow> Inl e
            | Inr v2 \<Rightarrow>
                (case draw (gutterWidth v2) of
                   Inl e \<Rightarrow> Inl e
                 | Inr (c, n) \<Rightarrow>
                     Inr ((gutterWidth v2)\<lparr>Cursor := c, Buf := (Buf (gutterWidth v2))\<lparr>curCursor := n\<rparr>\<rparr>))) of
            Inl e \<Rightarrow> \<exists>w. draw w = Inl e
          | Inr v' \<Rightarrow> leftCol v' = 0"
    if l0: "leftCol u = 0" and bu: "Buf u = Buf v" for u
  proof -
    obtain v2 where v2: "(if Type u = vtLog \<or> Type u = vtRaw
            then (case Relocate gvx u of Inl e \<Rightarrow> Inl e | Inr (ret, v') \<Rightarrow> Inr v')
            else Inr u) = Inr v2" and l2: "leftCol v2 = 0"
    proof (cases "Type u = vtLog \<or> Type u = vtRaw")
      case False
      then show ?thesis using that l0 by simp
    next
      case True
      obtain r T where "Relocate gvx u = Inr (r, u\<lparr>Topline := T\<rparr>)"
        using Relocate_softwrap [of u m t gvx] sw sm ts bu by auto
      then show ?thesis using that [of "u\<lparr>Topline := T\<rparr>"] True l0 by simp
    qed
    show ?thesis
    proof (cases "draw (gutterWidth v2)")
      case (Inl e)
      then show ?thesis unfolding v2 by auto
    next
      case (Inr p)
      then show ?thesis unfolding v2 using l2 by (simp add: leftCol_gutterWidth case_prod_beta)
    qed
  qed
  have disp: "case DisplayView gvx display draw v of
            Inl e \<Rightarrow> \<exists>u. draw u = Inl e
          | Inr v' \<Rightarrow> leftCol v' = 0" if nt: "Type v \<noteq> vtTerm"
  proof (cases "leftCol v = 0")
    case True
    then show ?thesis
      using key [of v] nt sw by (simp add: DisplayView_def Let_def)
  next
    case False
    then show ?thesis
      using key [of "v\<lparr>leftCol := 0\<rparr>"] nt sw by (simp add: DisplayView_def Let_def)
  qed
  show ?thesis using rel disp by blast
qed

text \<open>
  Claim C5 as stated says that leftCol is zero after any Relocate under softwrap. In the
  sample softwrap pane with leftCol 5 (the pane was scrolled sideways before softwrap was
  switched on) Relocate returns with leftCol 5.
\<close>

theorem C5_counterexample:
  "Settings (Buf (wrapView\<lparr>leftCol := 5\<rparr>)) ''softwrap'' = Some (VBool True)
   \<and> Relocate plainVisualX (wrapView\<lparr>leftCol := 5\<rparr>) = Inr (True, wrapView\<lparr>leftCol := 5, Topline := 14\<rparr>)
   \<and> leftCol (wrapView\<lparr>leftCol := 5, Topline := 14\<rparr>) = 5"
  by (simp add: Relocate_def relocateLines_def relocateColumns_def Bottomline_def wrapView_def viewOf_def bufferOf_def cursorAt_def
      DefaultLocalSettings_def theCursor_def tab_def)

text \<open>
  The same pane satisfies the hypotheses of C5: Relocate keeps its leftCol of 5, and
  DisplayView, with a drawing loop that leaves the primary cursor active, resets it.
\<close>

theorem C5_softwrap_leftCol_witness:
  "Settings (Buf (wrapView\<lparr>leftCol := 5\<rparr>)) ''softwrap'' = Some (VBool True)
   \<and> Settings (Buf (wrapView\<lparr>leftCol := 5\<rparr>)) ''scrollmargin'' = Some (VFloat64 3)
   \<and> Settings (Buf (wrapView\<lparr>leftCol := 5\<rparr>)) ''tabsize'' = Some (VFloat64 4)
   \<and> Type (wrapView\<lparr>leftCol := 5\<rparr>) \<noteq> vtTerm
   \<and> (\<exists>r v'. Relocate plainVisualX (wrapView\<lparr>leftCol := 5\<rparr>) = Inr (r, v') \<and> leftCol v' = 5)
   \<and> (\<exists>v'. DisplayView plainVisualX (\<lambda>u. u) (\<lambda>u. Inr (0, 0)) (wrapView\<lparr>leftCol := 5\<rparr>) = Inr v'
         \<and> leftCol v' = 0)"
proof -
  let ?v = "wrapView\<lparr>leftCol := 5\<rparr>"
  have sw: "Settings (Buf ?v) ''softwrap'' = Some (VBool True)"
    by (simp add: wrapView_def viewOf_def bufferOf_def)
  have sm: "Settings (Buf ?v) ''scrollmargin'' = Some (VFloat64 3)"
    by (simp add: wrapView_def viewOf_def bufferOf_def DefaultLocalSettings_def)
  have ts: "Settings (Buf ?v) ''tabsize'' = Some (VFloat64 4)"
    by (simp add: wrapView_def viewOf_def bufferOf_def DefaultLocalSettings_def)
  have nt: "Type ?v \<noteq> vtTerm"
    by (simp add: wrapView_def viewOf_def vtDefault_def vtTerm_def)
  have l: "leftCol ?v = 5" by simp
  note c5 = C5_softwrap_leftCol [OF sw sm ts, where gvx = plainVisualX and display = "\<lambda>u. u"
      and draw = "\<lambda>u. Inr (0, 0)"]
  have rel: "\<exists>r v'. Relocate plainVisualX ?v = Inr (r, v') \<and> leftCol v' = 5"
    using c5 l by simp
  have "case DisplayView plainVisualX (\<lambda>u. u) (\<lambda>u. Inr (0, 0)) ?v of
          Inl e \<Rightarrow> \<exists>u::View. (Inr (0, 0) :: error + nat \<times> int) = Inl e
        | Inr v' \<Rightarrow> leftCol v' = 0"
    using c5 nt by blast
  then have "\<exists>v'. DisplayView plainVisualX (\<lambda>u. u) (\<lambda>u. Inr (0, 0)) ?v = Inr v' \<and> leftCol v' = 0"
    by (cases "DisplayView plainVisualX (\<lambda>u. u) (\<lambda>u. Inr (0, 0)) ?v") simp_all
  then show ?thesis using sw sm ts nt rel by blast
qed


section \<open>Gutter messages, one per line\<close>

lemma hasMessageAt_iff:
  "hasMessageAt ms n \<longleftrightarrow> (\<exists>(section, gs) \<in> set ms. \<exists>g \<in> set gs. lineNum g = n)"
  by (auto simp: hasMessageAt_def list_ex_iff)

text \<open>
  Claim C10. \<^verbatim>\<open>GutterMessage(section, lineN, msg, kind)\<close> is a no-op, the view and its
  table of messages unchanged, whenever some message of some section, the given one or
  another, has the line index \<open>lineN - 1\<close>. Otherwise it appends the message, with line
  index \<open>lineN - 1\<close>, to the messages of the section and changes nothing else. The index
  is Go's \<open>lineN - 1\<close>, which is \<open>lineN - 1\<close> for every int but the least.
\<close>

theorem C10_gutter_message:
  "(if \<exists>(section', gs) \<in> set (messages v). \<exists>g \<in> set gs. lineNum g = wrap64 (lineN - 1)
    then GutterMessage section lineN m k v = v
    else map_of (messages (GutterMessage section lineN m k v)) section =
           Some (messagesOf (messages v) section @ [\<lparr>lineNum = wrap64 (lineN - 1), msg = m, kind = k\<rparr>])
       \<and> (\<forall>s. s \<noteq> section \<longrightarrow>
             map_of (messages (GutterMessage section lineN m k v)) s = map_of (messages v) s)
       \<and> GutterMessage section lineN m k v =
           v\<lparr>messages := messages (GutterMessage section lineN m k v)\<rparr>)
   \<and> (int64 lineN \<and> lineN \<noteq> - (2 ^ 63) \<longrightarrow> wrap64 (lineN - 1) = lineN - 1)"
proof -
  have w: "int64 lineN \<and> lineN \<noteq> - (2 ^ 63) \<longrightarrow> wrap64 (lineN - 1) = lineN - 1"
    by (auto intro!: wrap64_id simp: int64_def)
  show ?thesis
  proof (cases "hasMessageAt (messages v) (wrap64 (lineN - 1))")
    case True
    then show ?thesis
      using w by (simp add: GutterMessage_def hasMessageAt_iff [symmetric])
  next
    case False
    then show ?thesis
      using w by (simp add: GutterMessage_def hasMessageAt_iff [symmetric] update_conv)
  qed
qed

text \<open>
  In the view with a linter's message on line index 4, a message of another section for
  line 5 is dropped, and one for line 7 is stored under index 6.
\<close>

theorem C10_gutter_message_witness:
  "GutterMessage ''build'' 5 ''syntax error'' 2 lintView = lintView
   \<and> messages (GutterMessage ''build'' 7 ''syntax error'' 2 lintView) =
       [(''lint'', [\<lparr>lineNum = 4, msg = ''unused variable'', kind = 1\<rparr>]),
        (''build'', [\<lparr>lineNum = 6, msg = ''syntax error'', kind = 2\<rparr>])]"
proof -
  have a: "\<exists>(section', gs) \<in> set (messages lintView). \<exists>g \<in> set gs. lineNum g = wrap64 (5 - 1)"
    by (simp add: lintView_def wrap64_def)
  have b: "\<not> (\<exists>(section', gs) \<in> set (messages lintView). \<exists>g \<in> set gs. lineNum g = wrap64 (7 - 1))"
    by (simp add: lintView_def wrap64_def)
  have "GutterMessage ''build'' 5 ''syntax error'' 2 lintView = lintView"
    using a C10_gutter_message [of lintView 5 "''build''" "''syntax error''" 2] by presburger
  moreover have "messages (GutterMessage ''build'' 7 ''syntax error'' 2 lintView) =
       [(''lint'', [\<lparr>lineNum = 4, msg = ''unused variable'', kind = 1\<rparr>]),
        (''build'', [\<lparr>lineNum = 6, msg = ''syntax error'', kind = 2\<rparr>])]"
    by (simp add: GutterMessage_def hasMessageAt_def messagesOf_def lintView_def wrap64_def viewOf_def)
  ultimately show ?thesis by simp
qed


section \<open>Bindings in a read-only pane\<close>

lemma callBinding_world:
  "views (snd (callBinding action (r, w))) = views (snd (call action (curView w) w))
   \<and> curView (snd (callBinding action (r, w))) = curView (snd (call action (curView w) w))"
  by (simp add: callBinding_def Let_def split: prod.splits)



text \<open>
  The pane is read-only throughout when it is read-only at the start and every action of
  the list that runs leaves the current view, whichever it then is, read-only.
\<close>

lemma readonlyThroughout_kept:
  assumes "Readonly (Type (views w (curView w)))"
    and "\<forall>action \<in> set actions. \<not> isMutatingName (funcName action) \<longrightarrow>
           (\<forall>w'. Readonly (Type (views w' (curView w'))) \<longrightarrow>
              Readonly (Type (views (snd (call action (curView w') w'))
                                     (curView (snd (call action (curView w') w'))))))"
  shows "readonlyThroughout actions w"
  using assms
proof (induction actions arbitrary: w)
  case Nil
  then show ?case by simp
next
  case (Cons action actions)
  show ?case
  proof (cases "isMutatingName (funcName action)")
    case True
    then show ?thesis using Cons by simp
  next
    case False
    have "Readonly (Type (views (snd (call action (curView w) w))
                                     (curView (snd (call action (curView w) w)))))"
      using Cons.prems False by simp
    then have "Readonly (Type (views (snd (callBinding action (False, w)))
                                     (curView (snd (callBinding action (False, w))))))"
      using callBinding_world [of action False w] by simp
    then have "readonlyThroughout actions (snd (callBinding action (False, w)))"
      using Cons.IH Cons.prems(2) by simp
    then show ?thesis using False Cons.prems(1) by simp
  qed
qed





section \<open>The cursors after a dispatch\<close>

lemmas plain_defs = plainEnv_def plainInsert_def plainRemove_def plainHasSelection_def
  plainDeleteSelection_def plainResetSelection_def plainVisualX_def specMergeCursors_def
  twoCursorWorld_def twoCursorBuffer_def viewOf_def DefaultLocalSettings_def

lemmas handle_defs = HandleEvent_def handleSwitch_def insertRune_def SetCursor_def resetCursor_def
  setView_def updBuf_def updCursor_def cursorLoc_def theCursor_def relocateView_def Relocate_def
  relocateLines_def relocateColumns_def Bottomline_def cursorLocs_def vtDefault_def vtTerm_def
  vtRaw_def KeyRune_def Let_def

lemma Cursor_resetCursor: "Cursor (views (resetCursor a w) a) = 0"
  by (simp add: resetCursor_def SetCursor_def setView_def)

lemma runBinding_reset_merged:
  assumes "runBinding env reset actions a st = (relocate, isBinding, w')"
  shows "Cursor (views w' a) = 0 \<and> (\<exists>b. Buf (views w' a) = MergeCursors env b)"
proof -
  obtain r i w0 where "cursorLoop reset actions a (cursors (Buf (views (snd (snd st)) a))) st = (r, i, w0)"
    by (metis prod_cases3)
  then have "w' = mergeCursors env a (resetCursor a w0)"
    using assms by (simp add: runBinding_def)
  then show ?thesis
    using Cursor_resetCursor [of a w0] by (auto simp: mergeCursors_def setView_def)
qed

lemma rawBindings_reset_merged:
  assumes "list_ex (\<lambda>(key, actions). keyCode key = - 1 \<and> esc = escape key) bs"
    and "rawBindings env a esc bs st = (relocate, isBinding, w')"
  shows "Cursor (views w' a) = 0 \<and> (\<exists>b. Buf (views w' a) = MergeCursors env b)"
  using assms
proof (induction bs)
  case Nil
  then show ?case by simp
next
  case (Cons kb bs)
  obtain key actions where kb: "kb = (key, actions)" by (cases kb)
  show ?case
  proof (cases "keyCode key = - 1 \<and> esc = escape key")
    case True
    then show ?thesis using Cons.prems(2) kb runBinding_reset_merged by simp
  next
    case False
    then show ?thesis using Cons kb by auto
  qed
qed

lemma keyBindings_reset_merged:
  assumes "list_ex (\<lambda>(key, actions). k = keyCode key \<and> \<not> (k = KeyRune \<and> rn \<noteq> rune key)
                       \<and> mods = modifiers key) bs"
    and "keyBindings env a k rn mods bs st = (relocate, isBinding, w')"
  shows "Cursor (views w' a) = 0 \<and> (\<exists>b. Buf (views w' a) = MergeCursors env b)"
  using assms
proof (induction bs)
  case Nil
  then show ?case by simp
next
  case (Cons kb bs)
  obtain key actions where kb: "kb = (key, actions)" by (cases kb)
  show ?case
  proof (cases "k = keyCode key \<and> \<not> (k = KeyRune \<and> rn \<noteq> rune key) \<and> mods = modifiers key")
    case True
    then have "keyBindings env a k rn mods (kb # bs) st = runBinding env True actions a st"
      using kb by auto
    then have "runBinding env True actions a st = (relocate, isBinding, w')"
      using Cons.prems(2) by simp
    then show ?thesis by (rule runBinding_reset_merged)
  next
    case False
    then have "keyBindings env a k rn mods (kb # bs) st = keyBindings env a k rn mods bs st"
      using kb by auto
    then show ?thesis using Cons kb False by auto
  qed
qed

lemma keyBindings_no_match:
  assumes "\<not> list_ex (\<lambda>(key, actions). k = keyCode key \<and> \<not> (k = KeyRune \<and> rn \<noteq> rune key)
                       \<and> mods = modifiers key) bs"
  shows "keyBindings env a k rn mods bs st = st"
  using assms
proof (induction bs)
  case Nil
  then show ?case by simp
next
  case (Cons kb bs)
  obtain key actions where kb: "kb = (key, actions)" by (cases kb)
  have no: "\<not> (k = keyCode key \<and> \<not> (k = KeyRune \<and> rn \<noteq> rune key) \<and> mods = modifiers key)"
    using Cons.prems kb by simp
  have "keyBindings env a k rn mods (kb # bs) st = keyBindings env a k rn mods bs st"
    using no kb by auto
  then show ?case using Cons by simp
qed

lemma insertRune_MergeCursors:
  "insertRune (env\<lparr>MergeCursors := f\<rparr>) a rn c w = insertRune env a rn c w"
  by (simp add: insertRune_def Let_def)

lemma paste_MergeCursors: "paste (env\<lparr>MergeCursors := f\<rparr>) clip v = paste env clip v"
  by (cases "asBool ''smartpaste'' (Settings (Buf v) ''smartpaste'')")
    (simp_all add: paste_def Let_def)

lemma pasteLoop_MergeCursors:
  "pasteLoop (env\<lparr>MergeCursors := f\<rparr>) a clip cs w = pasteLoop env a clip cs w"
  by (induction cs arbitrary: w) (simp_all add: paste_MergeCursors split: sum.splits)

lemma paste_never_merges:
  "handleSwitch (env\<lparr>MergeCursors := f\<rparr>) a (EventPaste clip) w = handleSwitch env a (EventPaste clip) w"
  by (simp add: handleSwitch_def pasteLoop_MergeCursors split: prod.splits sum.splits cong: if_cong)

lemma rune_insert_never_merges:
  assumes "\<not> list_ex (\<lambda>(key, actions). k = keyCode key \<and> \<not> (k = KeyRune \<and> rn \<noteq> rune key)
                       \<and> mods = modifiers key) (bindings env)"
  shows "handleSwitch (env\<lparr>MergeCursors := f\<rparr>) a (EventKey k rn mods) w =
         handleSwitch env a (EventKey k rn mods) w"
proof -
  have "keyBindings (env\<lparr>MergeCursors := f\<rparr>) a k rn mods (bindings env) st = st"
    and "keyBindings env a k rn mods (bindings env) st = st" for st
    using assms by (simp_all add: keyBindings_no_match)
  then show ?thesis
    by (simp add: handleSwitch_def insertRune_MergeCursors split: prod.splits cong: if_cong)
qed

text \<open>
  So HandleEvent as a whole, on a typed rune without a binding and on a paste, returns the
  same state whatever MergeCursors is: it does not call it.
\<close>

lemma relocateView_MergeCursors:
  "relocateView (env\<lparr>MergeCursors := f\<rparr>) a w = relocateView env a w"
  by (simp add: relocateView_def)

lemma HandleEvent_rune_insert_never_merges:
  assumes "\<not> list_ex (\<lambda>(key, actions). k = keyCode key \<and> \<not> (k = KeyRune \<and> rn \<noteq> rune key)
                       \<and> mods = modifiers key) (bindings env)"
    and "Type (views w a) \<noteq> vtTerm" and "Type (views w a) \<noteq> vtRaw"
  shows "HandleEvent (env\<lparr>MergeCursors := f\<rparr>) a (EventKey k rn mods) w =
         HandleEvent env a (EventKey k rn mods) w"
  using assms(2,3) rune_insert_never_merges [OF assms(1)]
  by (simp add: HandleEvent_def relocateView_MergeCursors split: sum.splits prod.splits cong: if_cong)

lemma HandleEvent_paste_never_merges:
  assumes "Type (views w a) \<noteq> vtTerm" and "Type (views w a) \<noteq> vtRaw"
  shows "HandleEvent (env\<lparr>MergeCursors := f\<rparr>) a (EventPaste clip) w =
         HandleEvent env a (EventPaste clip) w"
  using assms paste_never_merges
  by (simp add: HandleEvent_def relocateView_MergeCursors split: sum.splits prod.splits cong: if_cong)

text \<open>
  Claim C2 says that on every dispatch path of HandleEvent the active cursor is reset to the
  primary cursor and the cursors are merged before it returns. The three binding paths do
  both (the lemmas above for the raw and the key case). The path that inserts a typed rune
  and the paste path only reset the cursor and never call MergeCursors (the lemmas
  above). Typing \<^verbatim>\<open>x\<close> with two cursors, the primary one holding the whole line as its
  selection and the other at the start of the line, leaves both cursors at column 2 of the
  line \<^verbatim>\<open>xx\<close>: the active cursor is the primary one, and the two cursors that
  MergeCursors would collapse to one are still two.
\<close>

theorem C2_rune_insert_not_merged:
  "cursorLocs (Buf (views twoCursorWorld 0)) = [Some (3, 0), Some (0, 0)]
   \<and> (case HandleEvent plainEnv 0 (EventKey KeyRune (CHR ''x'') 0) twoCursorWorld of
         Inl e \<Rightarrow> False
       | Inr w \<Rightarrow>
           Cursor (views w 0) = 0
           \<and> Line (Buf (views w 0)) 0 = ''xx''
           \<and> cursorLocs (Buf (views w 0)) = [Some (2, 0), Some (2, 0)]
           \<and> cursorLocs (MergeCursors plainEnv (Buf (views w 0))) = [Some (2, 0)])"
  by (simp add: plain_defs handle_defs)


section \<open>A burst of events and the redraw\<close>

lemma processEvent_no_break:
  assumes "\<forall>s. \<not> fst (TabbarHandleMouseEvent h event s)"
    and "processEvent h event s = Inr (broke, s')"
  shows "\<not> broke"
proof (cases "eventSwitch h event s")
  case (Inl e)
  then show ?thesis using assms(2) by (simp add: processEvent_def)
next
  case (Inr p)
  obtain didAction s1 where p: "p = (didAction, s1)" by (cases p)
  obtain taken s2 where t: "TabbarHandleMouseEvent h event s1 = (taken, s2)"
    by (cases "TabbarHandleMouseEvent h event s1")
  have "\<not> taken" using assms(1) t by (metis fst_conv)
  then show ?thesis
    using assms(2) Inr p t
    by (auto simp: processEvent_def split: sum.splits if_splits)
qed

lemma drain_dispatchAll:
  assumes "\<forall>event \<in> set (event # waiting). \<forall>s. \<not> fst (TabbarHandleMouseEvent h event s)"
  shows "drain h event waiting s =
     (case dispatchAll h (event # waiting) s of Inl e \<Rightarrow> Inl e | Inr s' \<Rightarrow> Inr ([], s'))"
  using assms
proof (induction waiting arbitrary: event s)
  case Nil
  then show ?case by (simp split: sum.splits)
next
  case (Cons nxt waiting)
  show ?case
  proof (cases "processEvent h event s")
    case (Inl e)
    then show ?thesis by simp
  next
    case (Inr p)
    obtain broke s1 where p: "p = (broke, s1)" by (cases p)
    have nb: "\<not> broke"
      using processEvent_no_break [of h event s broke s1] Cons.prems Inr p by simp
    have "drain h nxt waiting s1 =
      (case dispatchAll h (nxt # waiting) s1 of Inl e \<Rightarrow> Inl e | Inr s' \<Rightarrow> Inr ([], s'))"
      using Cons.IH [of nxt s1] Cons.prems by simp
    then show ?thesis using Inr p nb by simp
  qed
qed

text \<open>
  Claim C6, for a burst that the tab bar leaves alone. When the events of a burst are
  waiting in the channel and the tab bar takes none of them, the iteration of the main loop
  that receives the first one dispatches all of them, in order, with no redraw in between,
  leaves the channel empty, and the loop redraws once after the last. The redraw before the
  first event is the one that starts the iteration.
\<close>

theorem C6_burst_one_redraw:
  assumes "\<forall>event \<in> set (event # waiting). \<forall>s. \<not> fst (TabbarHandleMouseEvent h event s)"
  shows "mainLoop h [RecvEvent] (event # waiting) s =
     (case dispatchAll h (event # waiting) (RedrawAll h s) of
        Inl e \<Rightarrow> Inl e
      | Inr s' \<Rightarrow> Inr ([], RedrawAll h s'))"
  using drain_dispatchAll [OF assms, of "RedrawAll h s"]
  by (simp split: sum.splits)

text \<open>
  Claim C6 as stated speaks of every burst. A click that the tab bar takes ends the inner
  loop by \<^verbatim>\<open>break\<close>: of a burst of that click and a key, the key is still waiting in
  the channel when the loop redraws.
\<close>

theorem C6_counterexample:
  "mainLoop tracing [RecvEvent] [tabClick, keyA] oneViewEditor =
     Inr ([keyA], oneViewEditor\<lparr>edRest := [Redraw, TabSwitched tabClick, Redraw]\<rparr>)"
  by (simp add: tracing_def oneViewEditor_def tabClick_def keyA_def processEvent_def eventSwitch_def
      curViewOf_def lastViewAt_def inside_def logObs_def viewOf_def Button1_def)

text \<open>
  Fifty key events in the channel: one redraw, the fifty events handled by the current
  view, one redraw.
\<close>

theorem C6_burst_one_redraw_witness:
  "mainLoop quietTabbar [RecvEvent] (replicate 50 keyA) oneViewEditor =
     Inr ([], oneViewEditor\<lparr>edRest := Redraw # replicate 50 (Handled 0 keyA) @ [Redraw]\<rparr>)"
proof -
  have q: "\<forall>event \<in> set (keyA # replicate 49 keyA). \<forall>s. \<not> fst (TabbarHandleMouseEvent quietTabbar event s)"
    by (simp add: quietTabbar_def)
  have step: "processEvent quietTabbar keyA s = Inr (False, logObs (Handled 0 keyA) s)"
    if "edViews s = edViews oneViewEditor" "edCurView s = 0" "\<not> edSearching s" for s
    using that
    by (simp add: processEvent_def eventSwitch_def keyA_def quietTabbar_def tracing_def curViewOf_def
        oneViewEditor_def)
  have run: "dispatchAll quietTabbar (replicate n keyA) s =
      Inr (s\<lparr>edRest := edRest s @ replicate n (Handled 0 keyA)\<rparr>)"
    if "edViews s = edViews oneViewEditor" "edCurView s = 0" "\<not> edSearching s" for n s
    using that
  proof (induction n arbitrary: s)
    case 0
    then show ?case by simp
  next
    case (Suc n)
    have "dispatchAll quietTabbar (replicate n keyA) (logObs (Handled 0 keyA) s) =
      Inr ((logObs (Handled 0 keyA) s)\<lparr>edRest := edRest (logObs (Handled 0 keyA) s) @ replicate n (Handled 0 keyA)\<rparr>)"
      using Suc.prems by (intro Suc.IH) (simp_all add: logObs_def)
    then show ?case using step [OF Suc.prems] by (simp add: logObs_def replicate_app_Cons_same)
  qed
  have r50: "replicate 50 keyA = keyA # replicate 49 keyA"
    by (simp add: numeral_eq_Suc)
  have "mainLoop quietTabbar [RecvEvent] (keyA # replicate 49 keyA) oneViewEditor =
     (case dispatchAll quietTabbar (keyA # replicate 49 keyA) (RedrawAll quietTabbar oneViewEditor) of
        Inl e \<Rightarrow> Inl e
      | Inr s' \<Rightarrow> Inr ([], RedrawAll quietTabbar s'))"
    using C6_burst_one_redraw [OF q] by blast
  moreover have "dispatchAll quietTabbar (replicate 50 keyA) (RedrawAll quietTabbar oneViewEditor) =
      Inr ((RedrawAll quietTabbar oneViewEditor)\<lparr>edRest :=
             edRest (RedrawAll quietTabbar oneViewEditor) @ replicate 50 (Handled 0 keyA)\<rparr>)"
    by (intro run) (simp_all add: quietTabbar_def tracing_def logObs_def oneViewEditor_def)
  ultimately show ?thesis
    unfolding r50 [symmetric]
    by (simp add: quietTabbar_def tracing_def logObs_def oneViewEditor_def)
qed


section \<open>Setting an option\<close>

text \<open>
  Whenever SetOption returns an error nothing has changed, and SetOptionAndSettings then
  reports the error and does not write the file. SetOption returns an error for an option
  that neither the global settings nor the current buffer has, and for a global option
  whose value does not parse or is rejected by the validator.
\<close>

lemma SetOption_error_noop:
  assumes "SetOption lib option val c = Inr (Some err, c')"
  shows "c' = c"
  using assms
  by (auto simp: SetOption_def Let_def split: option.splits sum.splits if_splits prod.splits)

lemma SetOption_unknown:
  assumes "globalSettings c option = None"
    and "curViewIndex c < length (localSettings c)"
    and "(localSettings c ! curViewIndex c) option = None"
  shows "SetOption lib option val c = Inr (Some ''Invalid option'', c)"
  using assms by (simp add: SetOption_def)

lemma SetOption_global_invalid_value:
  assumes "globalSettings c option = Some current"
    and "nativeValue lib current val = Inl err"
  shows "SetOption lib option val c = Inr (Some err, c)"
  using assms by (simp add: SetOption_def)

lemma SetOption_global_rejected_value:
  assumes "globalSettings c option = Some current"
    and "nativeValue lib current val = Inr native"
    and "optionIsValid lib option native = Some err"
  shows "SetOption lib option val c = Inr (Some err, c)"
  using assms by (simp add: SetOption_def)

lemma SetOptionAndSettings_error:
  assumes "SetOption lib option val c = Inr (Some err, c')"
  shows "SetOptionAndSettings lib option val c = Inr (c\<lparr>messengerErrors := messengerErrors c @ [err]\<rparr>)"
  using assms SetOption_error_noop [OF assms] by (simp add: SetOptionAndSettings_def)

text \<open>
  For an option that only the current buffer has, SetLocalOption returns the error of a
  value that does not parse or is rejected, and SetOption returns \<^verbatim>\<open>nil\<close>.
\<close>

lemma SetOption_local_invalid_value:
  assumes "globalSettings c option = None"
    and "curViewIndex c < length (localSettings c)"
    and "(localSettings c ! curViewIndex c) option = Some current"
    and "nativeValue lib current val = Inl err"
  shows "SetLocalOption lib option val (curViewIndex c) c = Inr (Some err, c)
    \<and> SetOption lib option val c = Inr (None, c)"
  using assms by (simp add: SetOption_def SetLocalOption_def)

lemma SetOption_local_rejected_value:
  assumes "globalSettings c option = None"
    and "curViewIndex c < length (localSettings c)"
    and "(localSettings c ! curViewIndex c) option = Some current"
    and "nativeValue lib current val = Inr native"
    and "optionIsValid lib option native = Some err"
  shows "SetLocalOption lib option val (curViewIndex c) c = Inr (Some err, c)
    \<and> SetOption lib option val c = Inr (None, c)"
  using assms by (simp add: SetOption_def SetLocalOption_def)

text \<open>
  Claim C7 says that SetOption returns an error for every value that fails parsing or
  validation. For an option that only the current buffer has, it calls SetLocalOption and
  returns \<^verbatim>\<open>nil\<close> whatever SetLocalOption returned. With a local boolean option
  \<^verbatim>\<open>linter\<close>, the value \<^verbatim>\<open>maybe\<close> does not parse, SetLocalOption returns the error
  "Invalid value", SetOption returns no error, and SetOptionAndSettings reports nothing
  and writes the settings file.
\<close>

theorem C7_local_option_error_dropped:
  "globalSettings linterConfig ''linter'' = None
   \<and> nativeValue sampleLib (VBool True) ''maybe'' = Inl ''Invalid value''
   \<and> SetLocalOption sampleLib ''linter'' ''maybe'' 0 linterConfig = Inr (Some ''Invalid value'', linterConfig)
   \<and> SetOption sampleLib ''linter'' ''maybe'' linterConfig = Inr (None, linterConfig)
   \<and> SetOptionAndSettings sampleLib ''linter'' ''maybe'' linterConfig =
       Inr (linterConfig\<lparr>settingsFile := Content (''{}'' @ [CHR 0x0A])\<rparr>)"
proof -
  have g: "globalSettings linterConfig ''linter'' = None"
    by (simp add: linterConfig_def startConfig_def DefaultGlobalSettings_def)
  have n: "nativeValue sampleLib (VBool True) ''maybe'' = Inl ''Invalid value''"
    by (simp add: nativeValue_def sampleLib_def sampleParseBool_def)
  have l: "SetLocalOption sampleLib ''linter'' ''maybe'' 0 linterConfig = Inr (Some ''Invalid value'', linterConfig)"
    using n by (simp add: SetLocalOption_def linterConfig_def startConfig_def)
  have s: "SetOption sampleLib ''linter'' ''maybe'' linterConfig = Inr (None, linterConfig)"
    using g l by (simp add: SetOption_def) (simp add: linterConfig_def startConfig_def)
  have w: "WriteSettings sampleLib linterConfig =
      (None, linterConfig\<lparr>settingsFile := Content (''{}'' @ [CHR 0x0A])\<rparr>)"
    by (simp add: WriteSettings_def writeFile_def linterConfig_def startConfig_def sampleLib_def)
  have "SetOptionAndSettings sampleLib ''linter'' ''maybe'' linterConfig =
       Inr (linterConfig\<lparr>settingsFile := Content (''{}'' @ [CHR 0x0A])\<rparr>)"
    using s w by (simp add: SetOptionAndSettings_def)
  then show ?thesis using g n l s by simp
qed


section \<open>The settings file and the flag\<close>

text \<open>
  While \<open>invalidSettings\<close> is set, WriteSettings returns at once and writes nothing.
  InitGlobalSettings sets the flag, and leaves the file alone, when the file cannot be read
  and when its content, not starting with \<^verbatim>\<open>null\<close>, cannot be parsed.
\<close>

lemma WriteSettings_suppressed:
  "invalidSettings c \<Longrightarrow> WriteSettings lib c = (None, c)"
  by (simp add: WriteSettings_def)

lemma InitGlobalSettings_unreadable:
  assumes "settingsFile c = Unreadable"
  shows "invalidSettings (InitGlobalSettings lib c) \<and> settingsFile (InitGlobalSettings lib c) = Unreadable"
  using assms by (simp add: InitGlobalSettings_def)

lemma InitGlobalSettings_unparsable:
  assumes "settingsFile c = Content input" and "\<not> HasPrefix input ''null''"
    and "Unmarshal lib input = None"
  shows "invalidSettings (InitGlobalSettings lib c)
    \<and> settingsFile (InitGlobalSettings lib c) = Content input"
  using assms by (simp add: InitGlobalSettings_def)

text \<open>
  With the flag clear, WriteSettings reads the file again; when the content cannot be
  parsed it sets the flag and writes the global settings over the file in the same call.
\<close>

lemma overrideGlobals_self: "overrideGlobals g g = g"
  by (rule ext) (simp add: overrideGlobals_def split: option.splits)

lemma WriteSettings_unparsable:
  assumes "\<not> invalidSettings c" and "configDir c"
    and "settingsFile c = Content input" and "input \<noteq> ''null''"
    and "Unmarshal lib input = None"
  shows "WriteSettings lib c =
     (None, c\<lparr>termMessages := termMessages c @ [''Error reading settings.json:''],
               invalidSettings := True,
               settingsFile := Content (MarshalIndent lib (globalSettings c) @ [CHR 0x0A])\<rparr>)"
  using assms by (simp add: WriteSettings_def writeFile_def overrideGlobals_self)

text \<open>
  Claim C8 ends: so a corrupt settings file is never clobbered. WriteSettings reads the
  file again. When the file has been damaged since the start and the flag is still clear,
  WriteSettings finds that it cannot be parsed, prints the error, sets the flag, and goes
  on to write the file: the damaged content \<^verbatim>\<open>{\<close> is replaced.
\<close>

theorem C8_damaged_file_overwritten:
  "Unmarshal sampleLib ''{'' = None
   \<and> invalidSettings damagedConfig = False
   \<and> settingsFile damagedConfig = Content ''{''
   \<and> WriteSettings sampleLib damagedConfig =
       (None, damagedConfig\<lparr>termMessages := [''Error reading settings.json:''],
                            invalidSettings := True,
                            settingsFile := Content (''{}'' @ [CHR 0x0A])\<rparr>)"
  by (simp add: WriteSettings_def writeFile_def damagedConfig_def startConfig_def sampleLib_def)

text \<open>
  The same happens at the start for a file that cannot be parsed and starts with
  \<^verbatim>\<open>null\<close>: InitGlobalSettings takes it for an empty file and has it written anew.
\<close>

lemma InitGlobalSettings_null_prefix_overwritten:
  "Unmarshal sampleLib ''nullx'' = None
   \<and> settingsFile (InitGlobalSettings sampleLib (startConfig\<lparr>settingsFile := Content ''nullx''\<rparr>)) =
       Content (''{}'' @ [CHR 0x0A])"
  by (simp add: InitGlobalSettings_def WriteSettings_def writeFile_def startConfig_def sampleLib_def
      Let_def)


end
